theory Spec2Isabelle
  imports Main "HOL-Library.Word"
begin

unbundle bit_operations_syntax

section \<open>Data model\<close>

subsection \<open>Lanes\<close>

text \<open>
  Lanes are the bitmasks of the reconciler: the source says of them that
  "0 is a subset of all bitmasks". A lane and a set of lanes are both a 32-bit word.
\<close>

type_synonym Lane = "32 word"
type_synonym Lanes = "32 word"
type_synonym Flags = "32 word"

text \<open>Modelled from the spec: the constant \<open>NoLane\<close> of ReactFiberLane (the empty
  priority, section 6 \<open>empty\<close>); the source relies on it being the bitmask 0.\<close>

definition NoLane :: Lane where
  "NoLane = 0"

text \<open>Modelled from the spec: the constant \<open>NoLanes\<close> of ReactFiberLane (the empty
  set of priorities, section 6 \<open>empty\<close>).\<close>

definition NoLanes :: Lanes where
  "NoLanes = 0"

text \<open>Modelled from the spec: \<open>mergeLanes\<close> of ReactFiberLane, the union of two
  priority sets (section 6 \<open>merge(a,b)\<close>).\<close>

definition mergeLanes :: "Lanes \<Rightarrow> Lanes \<Rightarrow> Lanes" where
  "mergeLanes a b = a OR b"

text \<open>Modelled from the spec: \<open>intersectLanes\<close> of ReactFiberLane, the intersection
  of two priority sets (section 6 \<open>intersect(a,b)\<close>).\<close>

definition intersectLanes :: "Lanes \<Rightarrow> Lanes \<Rightarrow> Lanes" where
  "intersectLanes a b = a AND b"

text \<open>Modelled from the spec: \<open>isSubsetOfLanes\<close> of ReactFiberLane, the subset test
  (section 6 \<open>isSubset(a,b)\<close>): the second argument is contained in the first.\<close>

definition isSubsetOfLanes :: "Lanes \<Rightarrow> Lanes \<Rightarrow> bool" where
  "isSubsetOfLanes a b = ((a AND b) = b)"

text \<open>Modelled from the spec: \<open>removeLanes\<close> of ReactFiberLane, set difference
  (section 6 \<open>remove(a,b)\<close>).\<close>

definition removeLanes :: "Lanes \<Rightarrow> Lanes \<Rightarrow> Lanes" where
  "removeLanes a b = a AND NOT b"

subsection \<open>Objects and references\<close>

text \<open>
  Every JavaScript object of the two modules lives in a store of its own kind, addressed
  by a natural number; a nullable reference is an \<open>option\<close>. Two references are the
  same object exactly when they are the same address, so aliasing between the current
  and the work-in-progress queue, or between a list node and an entry of \<open>effects\<close>,
  is aliasing of addresses.
\<close>

type_synonym uref = nat  \<comment> \<open>an \<open>Update\<close> object\<close>
type_synonym qref = nat  \<comment> \<open>an \<open>UpdateQueue\<close> object\<close>
type_synonym sref = nat  \<comment> \<open>a \<open>SharedQueue\<close> object\<close>
type_synonym fref = nat  \<comment> \<open>a \<open>Fiber\<close>\<close>
type_synonym rref = nat  \<comment> \<open>a \<open>FiberRoot\<close>\<close>

text \<open>A state or partial state: \<open>null\<close>, \<open>undefined\<close>, or any other value.\<close>

datatype 's JSValue = JSNull | JSUndefined | JSValue 's

text \<open>
  The payload of an update is \<open>any\<close>: the code asks \<open>typeof payload === 'function'\<close>.
  A payload function is called as \<open>payload.call(instance, prevState, nextProps)\<close>; the
  spec requires it to be pure, so it is a function of exactly these three values.
\<close>

datatype ('s, 'p, 'i) Payload =
    PayloadFunction "'i \<Rightarrow> 's JSValue \<Rightarrow> 'p \<Rightarrow> 's JSValue"
  | PayloadValue "'s JSValue"

text \<open>The tag \<open>0 | 1 | 2 | 3\<close>.\<close>

datatype UpdateTag = UpdateState | ReplaceState | ForceUpdate | CaptureUpdate

text \<open>
  A non-null callback. \<open>callCallback\<close> asks \<open>typeof callback !== 'function'\<close>, so a
  callback that is not a function is a value of its own; a function is named by a number.
\<close>

datatype Callback = CallbackFunction nat | CallbackNotFunction

record ('s, 'p, 'i) Update =
  eventTime :: int
  lane :: Lane
  tag :: UpdateTag
  payload :: "('s, 'p, 'i) Payload"
  callback :: "Callback option"
  nxt :: "uref option"  \<comment> \<open>the field \<open>next\<close>\<close>

record SharedQueue =
  pending :: "uref option"
  lanes :: Lanes

record 's UpdateQueue =
  baseState :: "'s JSValue"
  firstBaseUpdate :: "uref option"
  lastBaseUpdate :: "uref option"
  shared :: sref
  effects :: "uref list option"

datatype WorkTag = HostRoot | OffscreenComponent | OtherWorkTag

text \<open>
  \<open>stateNode\<close> of a fiber: the \<open>FiberRoot\<close> of a host root, the \<open>OffscreenInstance\<close>
  (its field \<open>isHidden\<close>) of an Offscreen component, or anything else.
\<close>

datatype StateNode = FiberRootNode rref | OffscreenInstance bool | OtherStateNode

record 's Fiber =
  tag :: WorkTag
  stateNode :: StateNode
  return :: "fref option"
  alternate :: "fref option"
  lanes :: Lanes
  childLanes :: Lanes
  flags :: Flags
  mode :: "32 word"
  memoizedState :: "'s JSValue"
  updateQueue :: "qref option"

record FiberRoot =
  pendingLanes :: Lanes

text \<open>A slot of the array \<open>concurrentQueues\<close>.\<close>

datatype Slot =
    SlotNull | SlotUndefined | SlotFiber fref | SlotQueue sref | SlotUpdate uref
  | SlotLane Lane

text \<open>
  What the two modules do to the world outside them: calls of functions of other
  modules and of callbacks, in the order they are made.
\<close>

datatype 'i Event =
    ConsoleError string
  | MarkRootEntangled rref Lanes
  | MarkHiddenUpdate StateNode uref Lane
  | MarkSkippedUpdateLanes Lanes
  | WarnAboutUpdateOnNotYetMountedFiberInDEV fref
  | CallbackCalled nat 'i

text \<open>
  The constants and predicates that the two modules import and that are not part of the
  sources: the build flag \<open>__DEV__\<close>, \<open>OffscreenLane\<close> and \<open>isTransitionLane\<close> of
  ReactFiberLane, the flags of ReactFiberFlags, \<open>isUnsafeClassRenderPhaseUpdate\<close> of the
  work loop and \<open>assign\<close> (\<open>assign env prev partial\<close> is \<open>assign({}, prev, partial)\<close>).
  They are parameters of the model.
\<close>

record 's Env =
  DEV :: bool
  OffscreenLane :: Lane
  isTransitionLane :: "Lane \<Rightarrow> bool"
  isUnsafeClassRenderPhaseUpdate :: "fref \<Rightarrow> bool"
  assign :: "'s JSValue \<Rightarrow> 's JSValue \<Rightarrow> 's JSValue"
  NoFlags :: Flags
  Placement :: Flags
  Hydrating :: Flags
  CallbackFlag :: Flags  \<comment> \<open>the flag \<open>Callback\<close>\<close>
  ShouldCapture :: Flags
  DidCapture :: Flags

text \<open>
  The world: the stores, the module variables of ReactFiberClassUpdateQueue
  (\<open>hasForceUpdate\<close>, \<open>didWarnUpdateInsideUpdate\<close>, \<open>currentlyProcessingQueue\<close>) and of
  ReactFiberConcurrentUpdates (\<open>concurrentQueues\<close>, \<open>concurrentQueuesIndex\<close>,
  \<open>concurrentlyUpdatedLanes\<close>), the value that \<open>getWorkInProgressRootRenderLanes()\<close>
  reads, and the trace of outside calls. \<open>nextUpdate\<close> is the address that the next
  object literal \<open>{eventTime: ..., next: null}\<close> receives.
\<close>

record ('s, 'p, 'i) World =
  updates :: "uref \<Rightarrow> ('s, 'p, 'i) Update"
  nextUpdate :: uref
  queues :: "qref \<Rightarrow> 's UpdateQueue"
  sharedQueues :: "sref \<Rightarrow> SharedQueue"
  fibers :: "fref \<Rightarrow> 's Fiber"
  roots :: "rref \<Rightarrow> FiberRoot"
  hasForceUpdate :: bool
  didWarnUpdateInsideUpdate :: bool
  currentlyProcessingQueue :: "sref option"
  concurrentQueues :: "Slot list"
  concurrentQueuesIndex :: nat
  concurrentlyUpdatedLanes :: Lanes
  workInProgressRootRenderLanes :: Lanes
  trace :: "'i Event list"

text \<open>Assignments to a field of an object in a store.\<close>

definition modifyUpdate ::
  "uref \<Rightarrow> (('s, 'p, 'i) Update \<Rightarrow> ('s, 'p, 'i) Update) \<Rightarrow> ('s, 'p, 'i) World \<Rightarrow> ('s, 'p, 'i) World" where
  "modifyUpdate r f w = w\<lparr>updates := (updates w)(r := f (updates w r))\<rparr>"

definition modifyQueue ::
  "qref \<Rightarrow> ('s UpdateQueue \<Rightarrow> 's UpdateQueue) \<Rightarrow> ('s, 'p, 'i) World \<Rightarrow> ('s, 'p, 'i) World" where
  "modifyQueue q f w = w\<lparr>queues := (queues w)(q := f (queues w q))\<rparr>"

definition modifyShared ::
  "sref \<Rightarrow> (SharedQueue \<Rightarrow> SharedQueue) \<Rightarrow> ('s, 'p, 'i) World \<Rightarrow> ('s, 'p, 'i) World" where
  "modifyShared s f w = w\<lparr>sharedQueues := (sharedQueues w)(s := f (sharedQueues w s))\<rparr>"

definition modifyFiber ::
  "fref \<Rightarrow> ('s Fiber \<Rightarrow> 's Fiber) \<Rightarrow> ('s, 'p, 'i) World \<Rightarrow> ('s, 'p, 'i) World" where
  "modifyFiber x f w = w\<lparr>fibers := (fibers w)(x := f (fibers w x))\<rparr>"

definition emit :: "'i Event \<Rightarrow> ('s, 'p, 'i) World \<Rightarrow> ('s, 'p, 'i) World" where
  "emit e w = w\<lparr>trace := trace w @ [e]\<rparr>"

section \<open>ReactFiberClassUpdateQueue\<close>

subsection \<open>getStateFromUpdate\<close>

text \<open>
  The shared tail of the cases \<open>CaptureUpdate\<close> and \<open>UpdateState\<close>. In a development
  build under strict mode the payload function is called a second time and its result
  dropped; it is pure, so the second call is not written.
\<close>

definition updateStateCase ::
  "'s Env \<Rightarrow> ('s, 'p, 'i) World \<Rightarrow> uref \<Rightarrow> 's JSValue \<Rightarrow> 'p \<Rightarrow> 'i \<Rightarrow> 's JSValue" where
  "updateStateCase env w update prevState nextProps instance =
     (let payload = payload (updates w update);
          partialState =
            (case payload of
               PayloadFunction f \<Rightarrow> f instance prevState nextProps
             | PayloadValue v \<Rightarrow> v)
      in if partialState = JSNull \<or> partialState = JSUndefined then prevState
         else assign env prevState partialState)"

definition getStateFromUpdate ::
  "'s Env \<Rightarrow> ('s, 'p, 'i) World \<Rightarrow> fref \<Rightarrow> qref \<Rightarrow> uref \<Rightarrow> 's JSValue \<Rightarrow> 'p \<Rightarrow> 'i
     \<Rightarrow> ('s, 'p, 'i) World \<times> 's JSValue" where
  "getStateFromUpdate env w workInProgress queue update prevState nextProps instance =
     (case Update.tag (updates w update) of
        ReplaceState \<Rightarrow>
          (case payload (updates w update) of
             PayloadFunction f \<Rightarrow> (w, f instance prevState nextProps)
           | PayloadValue v \<Rightarrow> (w, v))
      | CaptureUpdate \<Rightarrow>
          (let w1 = modifyFiber workInProgress
                      (\<lambda>f. f\<lparr>flags := (flags f AND NOT (ShouldCapture env)) OR DidCapture env\<rparr>) w
           in (w1, updateStateCase env w1 update prevState nextProps instance))
      | UpdateState \<Rightarrow> (w, updateStateCase env w update prevState nextProps instance)
      | ForceUpdate \<Rightarrow> (w\<lparr>hasForceUpdate := True\<rparr>, prevState))"

section \<open>ReactFiberConcurrentUpdates\<close>

text \<open>
  A function of the model returns \<open>None\<close> when the JavaScript call does not return:
  a loop that runs forever (a cyclic \<open>return\<close> chain or update list), or a slot of
  \<open>concurrentQueues\<close> or a field whose value is not of the type its Flow annotation
  promises where the code goes on to use it.
\<close>

subsection \<open>markUpdateLaneFromFiberToRoot\<close>

text \<open>The loop \<open>while (parent !== null)\<close>; it returns the world, \<open>isHidden\<close> and \<open>node\<close>.\<close>

partial_function (option) markUpdateLaneFromFiberToRoot_loop ::
  "('s, 'p, 'i) World \<Rightarrow> Lane \<Rightarrow> bool \<Rightarrow> fref option \<Rightarrow> fref
     \<Rightarrow> (('s, 'p, 'i) World \<times> bool \<times> fref) option" where
  "markUpdateLaneFromFiberToRoot_loop w lane' isHidden parent node =
     (case parent of
        None \<Rightarrow> Some (w, isHidden, node)
      | Some p \<Rightarrow>
          (let w1 = modifyFiber p (\<lambda>f. f\<lparr>childLanes := mergeLanes (childLanes f) lane'\<rparr>) w;
               w2 = (case alternate (fibers w1 p) of
                       None \<Rightarrow> w1
                     | Some a \<Rightarrow>
                         modifyFiber a (\<lambda>f. f\<lparr>childLanes := mergeLanes (childLanes f) lane'\<rparr>) w1);
               isHidden' =
                 (if Fiber.tag (fibers w2 p) = OffscreenComponent
                  then (case stateNode (fibers w2 p) of
                          OffscreenInstance hidden \<Rightarrow> (if hidden then True else isHidden)
                        | _ \<Rightarrow> isHidden)
                  else isHidden)
           in markUpdateLaneFromFiberToRoot_loop w2 lane' isHidden' (return (fibers w2 p)) p))"

declare markUpdateLaneFromFiberToRoot_loop.simps [code]

definition markUpdateLaneFromFiberToRoot ::
  "('s, 'p, 'i) World \<Rightarrow> fref \<Rightarrow> uref option \<Rightarrow> Lane \<Rightarrow> ('s, 'p, 'i) World option" where
  "markUpdateLaneFromFiberToRoot w sourceFiber update lane' =
     (let w1 = modifyFiber sourceFiber
                 (\<lambda>f. f\<lparr>Fiber.lanes := mergeLanes (Fiber.lanes f) lane'\<rparr>) w;
          w2 = (case alternate (fibers w1 sourceFiber) of
                  None \<Rightarrow> w1
                | Some a \<Rightarrow>
                    modifyFiber a (\<lambda>f. f\<lparr>Fiber.lanes := mergeLanes (Fiber.lanes f) lane'\<rparr>) w1)
      in case markUpdateLaneFromFiberToRoot_loop w2 lane' False
                (return (fibers w2 sourceFiber)) sourceFiber of
           None \<Rightarrow> None
         | Some (w3, isHidden, node) \<Rightarrow>
             (case update of
                None \<Rightarrow> Some w3
              | Some u \<Rightarrow>
                  if isHidden \<and> Fiber.tag (fibers w3 node) = HostRoot
                  then Some (emit (MarkHiddenUpdate (stateNode (fibers w3 node)) u lane') w3)
                  else Some w3))"

subsection \<open>getRootForUpdatedFiber\<close>

definition detectUpdateOnUnmountedFiber ::
  "'s Env \<Rightarrow> ('s, 'p, 'i) World \<Rightarrow> fref \<Rightarrow> fref \<Rightarrow> ('s, 'p, 'i) World" where
  "detectUpdateOnUnmountedFiber env w sourceFiber parent =
     (if DEV env
      then (if alternate (fibers w parent) = None
               \<and> (flags (fibers w parent) AND (Placement env OR Hydrating env)) \<noteq> NoFlags env
            then emit (WarnAboutUpdateOnNotYetMountedFiberInDEV sourceFiber) w
            else w)
      else w)"

partial_function (option) getRootForUpdatedFiber_loop ::
  "'s Env \<Rightarrow> ('s, 'p, 'i) World \<Rightarrow> fref \<Rightarrow> fref \<Rightarrow> fref option
     \<Rightarrow> (('s, 'p, 'i) World \<times> fref) option" where
  "getRootForUpdatedFiber_loop env w sourceFiber node parent =
     (case parent of
        None \<Rightarrow> Some (w, node)
      | Some p \<Rightarrow>
          (let w1 = detectUpdateOnUnmountedFiber env w sourceFiber node
           in getRootForUpdatedFiber_loop env w1 sourceFiber p (return (fibers w1 p))))"

declare getRootForUpdatedFiber_loop.simps [code]

text \<open>The result is the world and the returned \<open>FiberRoot | null\<close>.\<close>

definition getRootForUpdatedFiber ::
  "'s Env \<Rightarrow> ('s, 'p, 'i) World \<Rightarrow> fref \<Rightarrow> (('s, 'p, 'i) World \<times> StateNode option) option" where
  "getRootForUpdatedFiber env w sourceFiber =
     (let w1 = detectUpdateOnUnmountedFiber env w sourceFiber sourceFiber
      in case getRootForUpdatedFiber_loop env w1 sourceFiber sourceFiber
                (return (fibers w1 sourceFiber)) of
           None \<Rightarrow> None
         | Some (w2, node) \<Rightarrow>
             Some (w2, if Fiber.tag (fibers w2 node) = HostRoot
                       then Some (stateNode (fibers w2 node)) else None))"

definition unsafe_markUpdateLaneFromFiberToRoot ::
  "'s Env \<Rightarrow> ('s, 'p, 'i) World \<Rightarrow> fref \<Rightarrow> Lane
     \<Rightarrow> (('s, 'p, 'i) World \<times> StateNode option) option" where
  "unsafe_markUpdateLaneFromFiberToRoot env w sourceFiber lane' =
     (case markUpdateLaneFromFiberToRoot w sourceFiber None lane' of
        None \<Rightarrow> None
      | Some w1 \<Rightarrow> getRootForUpdatedFiber env w1 sourceFiber)"

subsection \<open>The staging buffer\<close>

text \<open>
  Reading and writing the JavaScript array \<open>concurrentQueues\<close>: a read past the end is
  \<open>undefined\<close>, a write past the end extends the array.
\<close>

definition arrayGet :: "Slot list \<Rightarrow> nat \<Rightarrow> Slot" where
  "arrayGet xs i = (if i < length xs then xs ! i else SlotUndefined)"

definition arraySet :: "Slot list \<Rightarrow> nat \<Rightarrow> Slot \<Rightarrow> Slot list" where
  "arraySet xs i v =
     (if i < length xs then xs[i := v]
      else xs @ replicate (i - length xs) SlotUndefined @ [v])"

text \<open>The statement \<open>concurrentQueues[concurrentQueuesIndex++] = v\<close>.\<close>

definition pushSlot :: "Slot \<Rightarrow> ('s, 'p, 'i) World \<Rightarrow> ('s, 'p, 'i) World" where
  "pushSlot v w =
     w\<lparr>concurrentQueues := arraySet (concurrentQueues w) (concurrentQueuesIndex w) v,
       concurrentQueuesIndex := concurrentQueuesIndex w + 1\<rparr>"

text \<open>The private \<open>enqueueUpdate\<close> of ReactFiberConcurrentUpdates.\<close>

definition enqueueUpdate_Concurrent ::
  "('s, 'p, 'i) World \<Rightarrow> fref \<Rightarrow> sref option \<Rightarrow> uref option \<Rightarrow> Lane \<Rightarrow> ('s, 'p, 'i) World" where
  "enqueueUpdate_Concurrent w fiber queue update lane' =
     (let w1 = pushSlot (SlotFiber fiber) w;
          w2 = pushSlot (case queue of None \<Rightarrow> SlotNull | Some q \<Rightarrow> SlotQueue q) w1;
          w3 = pushSlot (case update of None \<Rightarrow> SlotNull | Some u \<Rightarrow> SlotUpdate u) w2;
          w4 = pushSlot (SlotLane lane') w3;
          w5 = w4\<lparr>concurrentlyUpdatedLanes := mergeLanes (concurrentlyUpdatedLanes w4) lane'\<rparr>;
          w6 = modifyFiber fiber (\<lambda>f. f\<lparr>Fiber.lanes := mergeLanes (Fiber.lanes f) lane'\<rparr>) w5
      in case alternate (fibers w6 fiber) of
           None \<Rightarrow> w6
         | Some a \<Rightarrow> modifyFiber a (\<lambda>f. f\<lparr>Fiber.lanes := mergeLanes (Fiber.lanes f) lane'\<rparr>) w6)"

definition enqueueConcurrentClassUpdate ::
  "'s Env \<Rightarrow> ('s, 'p, 'i) World \<Rightarrow> fref \<Rightarrow> sref \<Rightarrow> uref \<Rightarrow> Lane
     \<Rightarrow> (('s, 'p, 'i) World \<times> StateNode option) option" where
  "enqueueConcurrentClassUpdate env w fiber queue update lane' =
     getRootForUpdatedFiber env
       (enqueueUpdate_Concurrent w fiber (Some queue) (Some update) lane') fiber"

definition enqueueConcurrentRenderForLane ::
  "'s Env \<Rightarrow> ('s, 'p, 'i) World \<Rightarrow> fref \<Rightarrow> Lane
     \<Rightarrow> (('s, 'p, 'i) World \<times> StateNode option) option" where
  "enqueueConcurrentRenderForLane env w fiber lane' =
     getRootForUpdatedFiber env (enqueueUpdate_Concurrent w fiber None None lane') fiber"

subsection \<open>finishQueueingConcurrentUpdates\<close>

text \<open>
  The insertion into the circular pending list, as both \<open>finishQueueingConcurrentUpdates\<close>
  and the render-phase branch of the class \<open>enqueueUpdate\<close> write it:
  \<open>if (pending === null) update.next = update; else { update.next = pending.next;
  pending.next = update; } queue.pending = update\<close>.
\<close>

definition linkPending ::
  "sref \<Rightarrow> uref \<Rightarrow> ('s, 'p, 'i) World \<Rightarrow> ('s, 'p, 'i) World" where
  "linkPending queue update w =
     (let w1 = (case pending (sharedQueues w queue) of
                  None \<Rightarrow> modifyUpdate update (\<lambda>u. u\<lparr>nxt := Some update\<rparr>) w
                | Some p \<Rightarrow>
                    (let w' = modifyUpdate update (\<lambda>u. u\<lparr>nxt := nxt (updates w p)\<rparr>) w
                     in modifyUpdate p (\<lambda>u. u\<lparr>nxt := Some update\<rparr>) w'))
      in modifyShared queue (\<lambda>s. s\<lparr>pending := Some update\<rparr>) w1)"

text \<open>The statement \<open>concurrentQueues[i++] = null\<close>, the index kept by the caller.\<close>

definition clearSlot :: "nat \<Rightarrow> ('s, 'p, 'i) World \<Rightarrow> ('s, 'p, 'i) World" where
  "clearSlot i w = w\<lparr>concurrentQueues := arraySet (concurrentQueues w) i SlotNull\<rparr>"

text \<open>
  A slot read as \<open>ConcurrentQueue | null\<close> and as \<open>ConcurrentUpdate | null\<close>; \<open>None\<close>
  is a slot that holds neither.
\<close>

definition slotQueue :: "Slot \<Rightarrow> sref option option" where
  "slotQueue s = (case s of SlotNull \<Rightarrow> Some None | SlotQueue q \<Rightarrow> Some (Some q) | _ \<Rightarrow> None)"

definition slotUpdate :: "Slot \<Rightarrow> uref option option" where
  "slotUpdate s = (case s of SlotNull \<Rightarrow> Some None | SlotUpdate u \<Rightarrow> Some (Some u) | _ \<Rightarrow> None)"

text \<open>The loop \<open>while (i < endIndex)\<close>.\<close>

partial_function (option) finishQueueingConcurrentUpdates_loop ::
  "('s, 'p, 'i) World \<Rightarrow> nat \<Rightarrow> nat \<Rightarrow> ('s, 'p, 'i) World option" where
  "finishQueueingConcurrentUpdates_loop w endIndex i =
     (if i < endIndex then
        (let fiberSlot = arrayGet (concurrentQueues w) i;
             w1 = clearSlot i w;
             queueSlot = arrayGet (concurrentQueues w1) (i + 1);
             w2 = clearSlot (i + 1) w1;
             updateSlot = arrayGet (concurrentQueues w2) (i + 2);
             w3 = clearSlot (i + 2) w2;
             laneSlot = arrayGet (concurrentQueues w3) (i + 3);
             w4 = clearSlot (i + 3) w3
         in case (fiberSlot, slotQueue queueSlot, slotUpdate updateSlot, laneSlot) of
              (SlotFiber fiber, Some queue, Some update, SlotLane lane') \<Rightarrow>
                (let w5 = (case (queue, update) of
                             (Some q, Some u) \<Rightarrow> linkPending q u w4
                           | _ \<Rightarrow> w4)
                 in if lane' \<noteq> NoLane
                    then (case markUpdateLaneFromFiberToRoot w5 fiber update lane' of
                            None \<Rightarrow> None
                          | Some w6 \<Rightarrow> finishQueueingConcurrentUpdates_loop w6 endIndex (i + 4))
                    else finishQueueingConcurrentUpdates_loop w5 endIndex (i + 4))
            | _ \<Rightarrow> None)
      else Some w)"

declare finishQueueingConcurrentUpdates_loop.simps [code]

definition finishQueueingConcurrentUpdates ::
  "('s, 'p, 'i) World \<Rightarrow> ('s, 'p, 'i) World option" where
  "finishQueueingConcurrentUpdates w =
     (let endIndex = concurrentQueuesIndex w;
          w1 = w\<lparr>concurrentQueuesIndex := 0\<rparr>;
          w2 = w1\<lparr>concurrentlyUpdatedLanes := NoLanes\<rparr>
      in finishQueueingConcurrentUpdates_loop w2 endIndex 0)"

definition getConcurrentlyUpdatedLanes :: "('s, 'p, 'i) World \<Rightarrow> Lanes" where
  "getConcurrentlyUpdatedLanes w = concurrentlyUpdatedLanes w"

section \<open>ReactFiberClassUpdateQueue, continued\<close>

subsection \<open>enqueueUpdate\<close>

definition updateInsideUpdateMessage :: string where
  "updateInsideUpdateMessage =
     ''An update (setState, replaceState, or forceUpdate) was scheduled '' @
     ''from inside an update function. Update functions should be pure, '' @
     ''with zero side-effects. Consider using componentDidUpdate or a '' @
     ''callback.''"

text \<open>The result is the world and the returned \<open>FiberRoot | null\<close>.\<close>

definition enqueueUpdate ::
  "'s Env \<Rightarrow> ('s, 'p, 'i) World \<Rightarrow> fref \<Rightarrow> uref \<Rightarrow> Lane
     \<Rightarrow> (('s, 'p, 'i) World \<times> StateNode option) option" where
  "enqueueUpdate env w fiber update lane' =
     (case updateQueue (fibers w fiber) of
        None \<Rightarrow> Some (w, None)
      | Some updateQueue' \<Rightarrow>
          (let sharedQueue = shared (queues w updateQueue');
               w1 = (if DEV env
                     then (if currentlyProcessingQueue w = Some sharedQueue
                              \<and> \<not> didWarnUpdateInsideUpdate w
                           then (emit (ConsoleError updateInsideUpdateMessage) w)
                                  \<lparr>didWarnUpdateInsideUpdate := True\<rparr>
                           else w)
                     else w)
           in if isUnsafeClassRenderPhaseUpdate env fiber
              then unsafe_markUpdateLaneFromFiberToRoot env
                     (linkPending sharedQueue update w1) fiber lane'
              else enqueueConcurrentClassUpdate env w1 fiber sharedQueue update lane'))"

subsection \<open>entangleTransitions\<close>

definition entangleTransitions ::
  "'s Env \<Rightarrow> ('s, 'p, 'i) World \<Rightarrow> rref \<Rightarrow> fref \<Rightarrow> Lane \<Rightarrow> ('s, 'p, 'i) World" where
  "entangleTransitions env w root fiber lane' =
     (case updateQueue (fibers w fiber) of
        None \<Rightarrow> w
      | Some updateQueue' \<Rightarrow>
          (let sharedQueue = shared (queues w updateQueue')
           in if isTransitionLane env lane'
              then (let queueLanes = SharedQueue.lanes (sharedQueues w sharedQueue);
                        queueLanes' = intersectLanes queueLanes (pendingLanes (roots w root));
                        newQueueLanes = mergeLanes queueLanes' lane';
                        w1 = modifyShared sharedQueue
                               (\<lambda>s. s\<lparr>SharedQueue.lanes := newQueueLanes\<rparr>) w
                    in emit (MarkRootEntangled root newQueueLanes) w1)
              else w))"

subsection \<open>processUpdateQueue\<close>

text \<open>An object literal \<open>{eventTime: ..., next: null}\<close>: a new object, and its address.\<close>

definition newUpdate ::
  "('s, 'p, 'i) Update \<Rightarrow> ('s, 'p, 'i) World \<Rightarrow> ('s, 'p, 'i) World \<times> uref" where
  "newUpdate u w =
     (w\<lparr>updates := (updates w)(nextUpdate w := u), nextUpdate := nextUpdate w + 1\<rparr>,
      nextUpdate w)"

text \<open>
  The block \<open>if (pendingQueue !== null) { ... }\<close>: the circular pending list is cut and
  appended to the base list of the work-in-progress queue and of the current queue. The
  result is the world and the locals \<open>firstBaseUpdate\<close> and \<open>lastBaseUpdate\<close>.
\<close>

definition transferPending ::
  "('s, 'p, 'i) World \<Rightarrow> fref \<Rightarrow> qref
     \<Rightarrow> (('s, 'p, 'i) World \<times> uref option \<times> uref option) option" where
  "transferPending w workInProgress queue =
     (let firstBaseUpdate' = firstBaseUpdate (queues w queue);
          lastBaseUpdate' = lastBaseUpdate (queues w queue);
          pendingQueue = pending (sharedQueues w (shared (queues w queue)))
      in case pendingQueue of
           None \<Rightarrow> Some (w, firstBaseUpdate', lastBaseUpdate')
         | Some lastPendingUpdate \<Rightarrow>
             (let w1 = modifyShared (shared (queues w queue)) (\<lambda>s. s\<lparr>pending := None\<rparr>) w;
                  firstPendingUpdate = nxt (updates w1 lastPendingUpdate);
                  w2 = modifyUpdate lastPendingUpdate (\<lambda>u. u\<lparr>nxt := None\<rparr>) w1;
                  (w3, firstBaseUpdate'') =
                     (case lastBaseUpdate' of
                        None \<Rightarrow> (w2, firstPendingUpdate)
                      | Some l \<Rightarrow>
                          (modifyUpdate l (\<lambda>u. u\<lparr>nxt := firstPendingUpdate\<rparr>) w2,
                           firstBaseUpdate'));
                  lastBaseUpdate'' = Some lastPendingUpdate
              in case alternate (fibers w3 workInProgress) of
                   None \<Rightarrow> Some (w3, firstBaseUpdate'', lastBaseUpdate'')
                 | Some current \<Rightarrow>
                     (case updateQueue (fibers w3 current) of
                        None \<Rightarrow> None
                      | Some currentQueue \<Rightarrow>
                          (let currentLastBaseUpdate = lastBaseUpdate (queues w3 currentQueue)
                           in if currentLastBaseUpdate \<noteq> lastBaseUpdate''
                              then (let w4 =
                                      (case currentLastBaseUpdate of
                                         None \<Rightarrow>
                                           modifyQueue currentQueue
                                             (\<lambda>q. q\<lparr>firstBaseUpdate := firstPendingUpdate\<rparr>) w3
                                       | Some cl \<Rightarrow>
                                           modifyUpdate cl
                                             (\<lambda>u. u\<lparr>nxt := firstPendingUpdate\<rparr>) w3)
                                    in Some (modifyQueue currentQueue
                                               (\<lambda>q. q\<lparr>lastBaseUpdate := Some lastPendingUpdate\<rparr>) w4,
                                             firstBaseUpdate'', lastBaseUpdate''))
                              else Some (w3, firstBaseUpdate'', lastBaseUpdate'')))))"

text \<open>The locals of the walk that change from one record to the next.\<close>

record 's Locals =
  newState :: "'s JSValue"
  newLanes :: Lanes
  newBaseState :: "'s JSValue"
  newFirstBaseUpdate :: "uref option"
  newLastBaseUpdate :: "uref option"

text \<open>The statement \<open>newLastBaseUpdate = newLastBaseUpdate.next = clone\<close>.\<close>

definition appendClone ::
  "uref \<Rightarrow> uref \<Rightarrow> ('s, 'p, 'i) World \<times> 's Locals \<Rightarrow> ('s, 'p, 'i) World \<times> 's Locals" where
  "appendClone l clone wv =
     (modifyUpdate l (\<lambda>u. u\<lparr>nxt := Some clone\<rparr>) (fst wv),
      (snd wv)\<lparr>newLastBaseUpdate := Some clone\<rparr>)"

text \<open>
  The body of the \<open>do\<close> loop up to \<open>update = update.next\<close>: the record \<open>update\<close> is
  skipped and cloned, or applied (and cloned when a record before it was skipped).
\<close>

definition processUpdate ::
  "'s Env \<Rightarrow> fref \<Rightarrow> qref \<Rightarrow> 'p \<Rightarrow> 'i \<Rightarrow> Lanes \<Rightarrow> ('s, 'p, 'i) World \<Rightarrow> 's Locals \<Rightarrow> uref
     \<Rightarrow> ('s, 'p, 'i) World \<times> 's Locals" where
  "processUpdate env workInProgress queue props instance renderLanes w v update =
     (let updateEventTime = eventTime (updates w update);
          updateLane = removeLanes (lane (updates w update)) (OffscreenLane env);
          isHiddenUpdate = (updateLane \<noteq> lane (updates w update));
          shouldSkipUpdate =
            (if isHiddenUpdate
             then \<not> isSubsetOfLanes (workInProgressRootRenderLanes w) updateLane
             else \<not> isSubsetOfLanes renderLanes updateLane)
      in if shouldSkipUpdate then
           (let (w1, clone) =
                  newUpdate \<lparr>eventTime = updateEventTime, lane = updateLane,
                             tag = Update.tag (updates w update),
                             payload = payload (updates w update),
                             callback = callback (updates w update),
                             nxt = None\<rparr> w;
                (w2, v2) =
                  (case newLastBaseUpdate v of
                     None \<Rightarrow>
                       (w1, v\<lparr>newFirstBaseUpdate := Some clone, newLastBaseUpdate := Some clone,
                               newBaseState := newState v\<rparr>)
                   | Some l \<Rightarrow> appendClone l clone (w1, v))
            in (w2, v2\<lparr>newLanes := mergeLanes (newLanes v2) updateLane\<rparr>))
         else
           (let (w2, v2) =
                  (case newLastBaseUpdate v of
                     None \<Rightarrow> (w, v)
                   | Some l \<Rightarrow>
                       (let (w1, clone) =
                              newUpdate \<lparr>eventTime = updateEventTime, lane = NoLane,
                                         tag = Update.tag (updates w update),
                                         payload = payload (updates w update),
                                         callback = callback (updates w update),
                                         nxt = None\<rparr> w
                        in appendClone l clone (w1, v)));
                (w3, s) = getStateFromUpdate env w2 workInProgress queue update
                            (newState v2) props instance;
                v3 = v2\<lparr>newState := s\<rparr>
            in if callback (updates w3 update) \<noteq> None \<and> lane (updates w3 update) \<noteq> NoLane
               then (let w4 = modifyFiber workInProgress
                                (\<lambda>f. f\<lparr>flags := flags f OR CallbackFlag env\<rparr>) w3;
                         w5 = (case effects (queues w4 queue) of
                                 None \<Rightarrow> modifyQueue queue (\<lambda>q. q\<lparr>effects := Some [update]\<rparr>) w4
                               | Some es \<Rightarrow>
                                   modifyQueue queue (\<lambda>q. q\<lparr>effects := Some (es @ [update])\<rparr>) w4)
                     in (w5, v3))
               else (w3, v3)))"

text \<open>
  The loop \<open>do { ... } while (true)\<close>. At the end of the list it looks at
  \<open>queue.shared.pending\<close> again and goes on with the records found there.
\<close>

partial_function (option) processUpdateQueue_loop ::
  "'s Env \<Rightarrow> fref \<Rightarrow> qref \<Rightarrow> 'p \<Rightarrow> 'i \<Rightarrow> Lanes \<Rightarrow> ('s, 'p, 'i) World \<Rightarrow> 's Locals \<Rightarrow> uref
     \<Rightarrow> (('s, 'p, 'i) World \<times> 's Locals) option" where
  "processUpdateQueue_loop env workInProgress queue props instance renderLanes w v update =
     (let (w1, v1) = processUpdate env workInProgress queue props instance renderLanes w v update
      in case nxt (updates w1 update) of
           Some update' \<Rightarrow>
             processUpdateQueue_loop env workInProgress queue props instance renderLanes
               w1 v1 update'
         | None \<Rightarrow>
             (case pending (sharedQueues w1 (shared (queues w1 queue))) of
                None \<Rightarrow> Some (w1, v1)
              | Some lastPendingUpdate \<Rightarrow>
                  (let firstPendingUpdate = nxt (updates w1 lastPendingUpdate);
                       w2 = modifyUpdate lastPendingUpdate (\<lambda>u. u\<lparr>nxt := None\<rparr>) w1;
                       w3 = modifyQueue queue
                              (\<lambda>q. q\<lparr>lastBaseUpdate := Some lastPendingUpdate\<rparr>) w2;
                       w4 = modifyShared (shared (queues w3 queue))
                              (\<lambda>s. s\<lparr>pending := None\<rparr>) w3
                   in case firstPendingUpdate of
                        None \<Rightarrow> None
                      | Some update' \<Rightarrow>
                          processUpdateQueue_loop env workInProgress queue props instance
                            renderLanes w4 v1 update')))"

declare processUpdateQueue_loop.simps [code]

text \<open>The statements after the loop, inside \<open>if (firstBaseUpdate !== null)\<close>.\<close>

definition finishProcessing ::
  "fref \<Rightarrow> qref \<Rightarrow> uref option \<Rightarrow> ('s, 'p, 'i) World \<Rightarrow> 's Locals \<Rightarrow> ('s, 'p, 'i) World" where
  "finishProcessing workInProgress queue firstBaseUpdate' w v =
     (let newBaseState' =
            (if newLastBaseUpdate v = None then newState v else newBaseState v);
          w1 = modifyQueue queue (\<lambda>q. q\<lparr>baseState := newBaseState'\<rparr>) w;
          w2 = modifyQueue queue (\<lambda>q. q\<lparr>firstBaseUpdate := newFirstBaseUpdate v\<rparr>) w1;
          w3 = modifyQueue queue (\<lambda>q. q\<lparr>lastBaseUpdate := newLastBaseUpdate v\<rparr>) w2;
          w4 = (if firstBaseUpdate' = None
                then modifyShared (shared (queues w3 queue))
                       (\<lambda>s. s\<lparr>SharedQueue.lanes := NoLanes\<rparr>) w3
                else w3);
          w5 = emit (MarkSkippedUpdateLanes (newLanes v)) w4;
          w6 = modifyFiber workInProgress (\<lambda>f. f\<lparr>Fiber.lanes := newLanes v\<rparr>) w5
      in modifyFiber workInProgress (\<lambda>f. f\<lparr>memoizedState := newState v\<rparr>) w6)"

definition processUpdateQueue ::
  "'s Env \<Rightarrow> ('s, 'p, 'i) World \<Rightarrow> fref \<Rightarrow> 'p \<Rightarrow> 'i \<Rightarrow> Lanes \<Rightarrow> ('s, 'p, 'i) World option" where
  "processUpdateQueue env w workInProgress props instance renderLanes =
     (case updateQueue (fibers w workInProgress) of
        None \<Rightarrow> None
      | Some queue \<Rightarrow>
          (let w1 = w\<lparr>hasForceUpdate := False\<rparr>;
               w2 = (if DEV env
                     then w1\<lparr>currentlyProcessingQueue := Some (shared (queues w1 queue))\<rparr>
                     else w1)
           in case transferPending w2 workInProgress queue of
                None \<Rightarrow> None
              | Some (w3, firstBaseUpdate', lastBaseUpdate') \<Rightarrow>
                  (case (case firstBaseUpdate' of
                           None \<Rightarrow> Some w3
                         | Some first \<Rightarrow>
                             (case processUpdateQueue_loop env workInProgress queue props
                                     instance renderLanes w3
                                     \<lparr>newState = baseState (queues w3 queue),
                                      newLanes = NoLanes, newBaseState = JSNull,
                                      newFirstBaseUpdate = None, newLastBaseUpdate = None\<rparr>
                                     first of
                                None \<Rightarrow> None
                              | Some (w4, v) \<Rightarrow>
                                  Some (finishProcessing workInProgress queue
                                          firstBaseUpdate' w4 v))) of
                     None \<Rightarrow> None
                   | Some w5 \<Rightarrow>
                       Some (if DEV env then w5\<lparr>currentlyProcessingQueue := None\<rparr> else w5))))"

subsection \<open>commitUpdateQueue\<close>





section \<open>Example worlds\<close>

text \<open>
  The example of the header comment of ReactFiberClassUpdateQueue: base state \<open>''\<close> and
  the updates \<open>A1 - B2 - C1 - D2\<close>, each appending its letter to the previous state.
  The state is a string, the updates are \<open>replaceState\<close> updates whose payload is a
  function, and the two priorities are the lanes \<open>1\<close> and \<open>2\<close>.
\<close>

definition exampleEnv :: "string Env" where
  "exampleEnv =
     \<lparr>DEV = True, OffscreenLane = 0x40000000,
      isTransitionLane = (\<lambda>l. l AND 0x3FFFC0 \<noteq> 0),
      isUnsafeClassRenderPhaseUpdate = (\<lambda>_. False),
      assign = (\<lambda>prev partial. partial),
      NoFlags = 0, Placement = 2, Hydrating = 4096, CallbackFlag = 64,
      ShouldCapture = 65536, DidCapture = 128\<rparr>"

definition appendLetter :: "string \<Rightarrow> (string, unit, unit) Payload" where
  "appendLetter c =
     PayloadFunction
       (\<lambda>_ prevState _. case prevState of JSValue s \<Rightarrow> JSValue (s @ c) | _ \<Rightarrow> JSValue c)"

definition exampleUpdate ::
  "Lane \<Rightarrow> string \<Rightarrow> uref option \<Rightarrow> (string, unit, unit) Update" where
  "exampleUpdate l c n =
     \<lparr>eventTime = 0, lane = l, tag = ReplaceState, payload = appendLetter c,
      callback = None, nxt = n\<rparr>"

definition exampleFiber :: "string Fiber" where
  "exampleFiber =
     \<lparr>Fiber.tag = OtherWorkTag, stateNode = OtherStateNode, return = None, alternate = None,
      lanes = 0, childLanes = 0, flags = 0, mode = 0, memoizedState = JSValue [],
      updateQueue = Some 0\<rparr>"

text \<open>
  Fiber 0 owns queue 0, whose base list is the records 1 to 4 and whose pending list is
  empty; every other fiber has no parent and no alternate.
\<close>

definition exampleWorld :: "(string, unit, unit) World" where
  "exampleWorld =
     \<lparr>updates = (\<lambda>_. exampleUpdate 0 [] None)
        (1 := exampleUpdate 1 ''A'' (Some 2), 2 := exampleUpdate 2 ''B'' (Some 3),
         3 := exampleUpdate 1 ''C'' (Some 4), 4 := exampleUpdate 2 ''D'' None),
      nextUpdate = 5,
      queues = (\<lambda>_. \<lparr>baseState = JSValue [], firstBaseUpdate = Some 1,
                      lastBaseUpdate = Some 4, shared = 0, effects = None\<rparr>),
      sharedQueues = (\<lambda>_. \<lparr>pending = None, lanes = 0\<rparr>),
      fibers = (\<lambda>_. exampleFiber),
      roots = (\<lambda>_. \<lparr>pendingLanes = 0\<rparr>),
      hasForceUpdate = False, didWarnUpdateInsideUpdate = False,
      currentlyProcessingQueue = None,
      concurrentQueues = [], concurrentQueuesIndex = 0, concurrentlyUpdatedLanes = 0,
      workInProgressRootRenderLanes = 0, trace = []\<rparr>"

text \<open>
  The entanglement example of the spec: the transition lanes \<open>T1 = 0x40\<close> and
  \<open>T2 = 0x80\<close> are entangled on the shared queue 0, and only \<open>T2\<close> is still pending
  on root 0.
\<close>

definition entangledWorld :: "(string, unit, unit) World" where
  "entangledWorld =
     exampleWorld\<lparr>sharedQueues := (\<lambda>_. \<lparr>pending = None, lanes = 0xC0\<rparr>),
                  roots := (\<lambda>_. \<lparr>pendingLanes = 0x80\<rparr>)\<rparr>"

text \<open>
  A tree of three fibers: fiber 6, its parent 2, a hidden Offscreen component, and the
  host root 3 of root 0 above it. Fiber 6 has the alternate 4 and fiber 2 the alternate 5.
\<close>

definition hiddenTreeWorld :: "(string, unit, unit) World" where
  "hiddenTreeWorld =
     exampleWorld\<lparr>fibers := (\<lambda>_. exampleFiber)
       (6 := exampleFiber\<lparr>return := Some 2, alternate := Some 4\<rparr>,
        2 := exampleFiber\<lparr>Fiber.tag := OffscreenComponent,
                          stateNode := OffscreenInstance True, return := Some 3,
                          alternate := Some 5\<rparr>,
        3 := exampleFiber\<lparr>Fiber.tag := HostRoot, stateNode := FiberRootNode 0\<rparr>)\<rparr>"


text \<open>The letter that an update of the example appends, read off its payload.\<close>

definition letterOf :: "(string, unit, unit) Update \<Rightarrow> string JSValue" where
  "letterOf u =
     (case payload u of PayloadFunction f \<Rightarrow> f () (JSValue []) () | PayloadValue v \<Rightarrow> v)"

section \<open>Predicates of the proofs\<close>

text \<open>
  \<open>updateList us p rs\<close>: starting at the nullable record \<open>p\<close> and following \<open>next\<close>,
  one meets exactly the records \<open>rs\<close> and then \<open>null\<close>. The base list of a queue \<open>q\<close>
  is the list \<open>rs\<close> with \<open>updateList (updates w) (firstBaseUpdate q) rs\<close>.
\<close>

fun updateList ::
  "(uref \<Rightarrow> ('s, 'p, 'i) Update) \<Rightarrow> uref option \<Rightarrow> uref list \<Rightarrow> bool" where
  "updateList us p [] = (p = None)"
| "updateList us p (r # rs) = (p = Some r \<and> updateList us (nxt (us r)) rs)"

text \<open>
  \<open>returnChain fs p as\<close>: starting at the nullable fiber \<open>p\<close> and following \<open>return\<close>,
  one meets exactly the fibers \<open>as\<close> and then \<open>null\<close>. The ancestors of a fiber \<open>f\<close> are
  the list \<open>as\<close> with \<open>returnChain fs (return (fs f)) as\<close>.
\<close>

fun returnChain :: "(fref \<Rightarrow> 's Fiber) \<Rightarrow> fref option \<Rightarrow> fref list \<Rightarrow> bool" where
  "returnChain fs p [] = (p = None)"
| "returnChain fs p (a # as) = (p = Some a \<and> returnChain fs (return (fs a)) as)"

text \<open>The fibers \<open>as\<close> and their alternates.\<close>

definition withAlternates :: "(fref \<Rightarrow> 's Fiber) \<Rightarrow> fref list \<Rightarrow> fref set" where
  "withAlternates fs as = set as \<union> {b. \<exists>a \<in> set as. alternate (fs a) = Some b}"

text \<open>Some fiber of \<open>as\<close> is an Offscreen component whose instance is hidden.\<close>

definition hiddenOffscreen :: "(fref \<Rightarrow> 's Fiber) \<Rightarrow> fref list \<Rightarrow> bool" where
  "hiddenOffscreen fs as =
     list_ex (\<lambda>a. Fiber.tag (fs a) = OffscreenComponent
                  \<and> stateNode (fs a) = OffscreenInstance True) as"

text \<open>What the walk to the root does to the fibers \<open>A\<close>: the lane is merged into \<open>childLanes\<close>.\<close>

definition markChildLanes :: "Lane \<Rightarrow> fref set \<Rightarrow> (fref \<Rightarrow> 's Fiber) \<Rightarrow> (fref \<Rightarrow> 's Fiber)" where
  "markChildLanes l A fs = (\<lambda>x. if x \<in> A then (fs x)\<lparr>childLanes := mergeLanes (childLanes (fs x)) l\<rparr> else fs x)"

text \<open>The lane is merged into \<open>lanes\<close> of the fibers \<open>A\<close>.\<close>

definition markLanes :: "Lane \<Rightarrow> fref set \<Rightarrow> (fref \<Rightarrow> 's Fiber) \<Rightarrow> (fref \<Rightarrow> 's Fiber)" where
  "markLanes l A fs = (\<lambda>x. if x \<in> A then (fs x)\<lparr>Fiber.lanes := mergeLanes (Fiber.lanes (fs x)) l\<rparr> else fs x)"

text \<open>The whole effect of \<open>markUpdateLaneFromFiberToRoot\<close> on the fibers and on the trace,
  for a fiber \<open>f\<close> with the ancestors \<open>as\<close>.\<close>

definition markedFibers :: "Lane \<Rightarrow> fref \<Rightarrow> fref list \<Rightarrow> (fref \<Rightarrow> 's Fiber) \<Rightarrow> (fref \<Rightarrow> 's Fiber)" where
  "markedFibers l f as fs =
     markChildLanes l (withAlternates fs as) (markLanes l (withAlternates fs [f]) fs)"

definition hiddenUpdateEvents ::
  "(fref \<Rightarrow> 's Fiber) \<Rightarrow> fref \<Rightarrow> fref list \<Rightarrow> uref option \<Rightarrow> Lane \<Rightarrow> 'i Event list" where
  "hiddenUpdateEvents fs f as u l =
     (case u of
        None \<Rightarrow> []
      | Some r \<Rightarrow>
          if hiddenOffscreen fs as \<and> Fiber.tag (fs (last (f # as))) = HostRoot
          then [MarkHiddenUpdate (stateNode (fs (last (f # as)))) r l] else [])"


text \<open>The three parts of the world that the warning of \<open>enqueueUpdate\<close> reads or writes:
  the trace, \<open>didWarnUpdateInsideUpdate\<close> and \<open>currentlyProcessingQueue\<close>.\<close>

definition setConsole ::
  "'i Event list \<Rightarrow> bool \<Rightarrow> sref option \<Rightarrow> ('s, 'p, 'i) World \<Rightarrow> ('s, 'p, 'i) World" where
  "setConsole t d c w =
     w\<lparr>trace := t, didWarnUpdateInsideUpdate := d, currentlyProcessingQueue := c\<rparr>"


text \<open>A staged tuple \<open>(fiber, queue, update, lane)\<close> of the staging buffer.\<close>

type_synonym Staged = "fref \<times> sref option \<times> uref option \<times> Lane"

text \<open>The slots that the private \<open>enqueueUpdate\<close> writes for a queue and for an update.\<close>

definition queueSlot :: "sref option \<Rightarrow> Slot" where
  "queueSlot q = (case q of None \<Rightarrow> SlotNull | Some q' \<Rightarrow> SlotQueue q')"

definition updateSlot :: "uref option \<Rightarrow> Slot" where
  "updateSlot u = (case u of None \<Rightarrow> SlotNull | Some u' \<Rightarrow> SlotUpdate u')"

text \<open>The array \<open>xs\<close> holds the tuples \<open>ts\<close> from index \<open>i\<close> on, four slots each.\<close>

fun stagedAt :: "Slot list \<Rightarrow> nat \<Rightarrow> Staged list \<Rightarrow> bool" where
  "stagedAt xs i [] = True"
| "stagedAt xs i ((f, q, u, l) # ts) =
     (arrayGet xs i = SlotFiber f \<and> arrayGet xs (i + 1) = queueSlot q
      \<and> arrayGet xs (i + 2) = updateSlot u \<and> arrayGet xs (i + 3) = SlotLane l
      \<and> stagedAt xs (i + 4) ts)"

text \<open>The private \<open>enqueueUpdate\<close> called for each tuple in turn.\<close>

definition stageAll :: "('s, 'p, 'i) World \<Rightarrow> Staged list \<Rightarrow> ('s, 'p, 'i) World" where
  "stageAll w ts = foldl (\<lambda>w (f, q, u, l). enqueueUpdate_Concurrent w f q u l) w ts"

text \<open>What the flush does to the pending list for one tuple, and for a list of tuples in
  their order.\<close>

definition linkStaged :: "Staged \<Rightarrow> ('s, 'p, 'i) World \<Rightarrow> ('s, 'p, 'i) World" where
  "linkStaged t w =
     (case t of (f, Some q, Some u, l) \<Rightarrow> linkPending q u w | _ \<Rightarrow> w)"

definition linkAll :: "Staged list \<Rightarrow> ('s, 'p, 'i) World \<Rightarrow> ('s, 'p, 'i) World" where
  "linkAll ts w = foldl (\<lambda>w t. linkStaged t w) w ts"

text \<open>
  The pending list of the shared queue \<open>q\<close> is the circular list \<open>rs\<close>, in insertion order:
  \<open>pending\<close> is the last record, and the \<open>next\<close> of each record is the record after it,
  that of the last one the first.
\<close>

definition pendingCircle :: "('s, 'p, 'i) World \<Rightarrow> sref \<Rightarrow> uref list \<Rightarrow> bool" where
  "pendingCircle w q rs =
     (if rs = [] then pending (sharedQueues w q) = None
      else pending (sharedQueues w q) = Some (last rs)
           \<and> map (\<lambda>r. nxt (updates w r)) rs = map Some (rotate1 rs))"

text \<open>The tuples that stage the updates \<open>calls\<close> against the one queue \<open>q\<close>.\<close>

definition stagedFor :: "sref \<Rightarrow> (fref \<times> uref \<times> Lane) list \<Rightarrow> Staged list" where
  "stagedFor q calls = map (\<lambda>(f, r, l). (f, Some q, Some r, l)) calls"

section \<open>The walk of processUpdateQueue on lists\<close>

text \<open>
  The test of \<open>processUpdateQueue\<close> on one record: its lane without the Offscreen bit is
  not contained in the render lanes (in the render lanes of the root, for a record made
  while its tree was hidden).
\<close>

definition shouldSkipUpdate ::
  "'s Env \<Rightarrow> Lanes \<Rightarrow> Lanes \<Rightarrow> ('s, 'p, 'i) Update \<Rightarrow> bool" where
  "shouldSkipUpdate env renderLanes rootRenderLanes u =
     (let updateLane = removeLanes (lane u) (OffscreenLane env)
      in if updateLane \<noteq> lane u then \<not> isSubsetOfLanes rootRenderLanes updateLane
         else \<not> isSubsetOfLanes renderLanes updateLane)"

text \<open>The state that \<open>getStateFromUpdate\<close> returns, as a function of the record alone.\<close>

definition nextState ::
  "'s Env \<Rightarrow> ('s, 'p, 'i) Update \<Rightarrow> 's JSValue \<Rightarrow> 'p \<Rightarrow> 'i \<Rightarrow> 's JSValue" where
  "nextState env u prevState nextProps instance =
     (let result = (case payload u of
                      PayloadFunction f \<Rightarrow> f instance prevState nextProps
                    | PayloadValue v \<Rightarrow> v)
      in case Update.tag u of
           ReplaceState \<Rightarrow> result
         | ForceUpdate \<Rightarrow> prevState
         | _ \<Rightarrow> if result = JSNull \<or> result = JSUndefined then prevState
                else assign env prevState result)"

text \<open>
  Applying all updates once, in insertion order, to a base state: the single step that
  the spec compares the passes with.
\<close>

fun applyUpdates ::
  "'s Env \<Rightarrow> 'p \<Rightarrow> 'i \<Rightarrow> ('s, 'p, 'i) Update list \<Rightarrow> 's JSValue \<Rightarrow> 's JSValue" where
  "applyUpdates env props instance [] s = s"
| "applyUpdates env props instance (u # us) s =
     applyUpdates env props instance us (nextState env u s props instance)"

text \<open>The clone that the walk makes of a record, with the lane it gives it.\<close>

definition cloneOf :: "Lane \<Rightarrow> ('s, 'p, 'i) Update \<Rightarrow> ('s, 'p, 'i) Update" where
  "cloneOf l u =
     \<lparr>eventTime = eventTime u, lane = l, tag = Update.tag u, payload = payload u,
      callback = callback u, nxt = None\<rparr>"

text \<open>
  What one walk has computed so far: the state, the skipped lanes, the base state taken
  at the first skip, the clones made, in order, and the records pushed on \<open>effects\<close>.
\<close>

record ('s, 'p, 'i) Walk =
  walkState :: "'s JSValue"
  walkLanes :: Lanes
  walkBase :: "'s JSValue"
  walkClones :: "('s, 'p, 'i) Update list"
  walkEffects :: "uref list"

definition walkStep ::
  "'s Env \<Rightarrow> 'p \<Rightarrow> 'i \<Rightarrow> Lanes \<Rightarrow> Lanes \<Rightarrow> (uref \<Rightarrow> ('s, 'p, 'i) Update)
     \<Rightarrow> ('s, 'p, 'i) Walk \<Rightarrow> uref \<Rightarrow> ('s, 'p, 'i) Walk" where
  "walkStep env props instance renderLanes rootRenderLanes us a r =
     (let u = us r; updateLane = removeLanes (lane u) (OffscreenLane env)
      in if shouldSkipUpdate env renderLanes rootRenderLanes u
         then a\<lparr>walkLanes := mergeLanes (walkLanes a) updateLane,
                walkBase := (if walkClones a = [] then walkState a else walkBase a),
                walkClones := walkClones a @ [cloneOf updateLane u]\<rparr>
         else a\<lparr>walkState := nextState env u (walkState a) props instance,
                walkClones := (if walkClones a = [] then []
                               else walkClones a @ [cloneOf NoLane u]),
                walkEffects := (if callback u \<noteq> None \<and> lane u \<noteq> NoLane
                                then walkEffects a @ [r] else walkEffects a)\<rparr>)"

definition walk ::
  "'s Env \<Rightarrow> 'p \<Rightarrow> 'i \<Rightarrow> Lanes \<Rightarrow> Lanes \<Rightarrow> (uref \<Rightarrow> ('s, 'p, 'i) Update)
     \<Rightarrow> ('s, 'p, 'i) Walk \<Rightarrow> uref list \<Rightarrow> ('s, 'p, 'i) Walk" where
  "walk env props instance renderLanes rootRenderLanes us a rs =
     foldl (walkStep env props instance renderLanes rootRenderLanes us) a rs"

text \<open>The walk starts from the base state of the queue.\<close>

definition walkStart :: "'s JSValue \<Rightarrow> ('s, 'p, 'i) Walk" where
  "walkStart s =
     \<lparr>walkState = s, walkLanes = NoLanes, walkBase = JSNull, walkClones = [],
      walkEffects = []\<rparr>"

text \<open>
  The clones \<open>cs\<close> are the objects at the addresses \<open>n0, n0 + 1, ...\<close>, each linked to
  the next and the last one to \<open>null\<close>.
\<close>

definition clonesAt ::
  "(uref \<Rightarrow> ('s, 'p, 'i) Update) \<Rightarrow> uref \<Rightarrow> ('s, 'p, 'i) Update list \<Rightarrow> bool" where
  "clonesAt us n0 cs =
     (\<forall>k < length cs.
        us (n0 + k) = (cs ! k)\<lparr>nxt := (if Suc k < length cs then Some (n0 + Suc k) else None)\<rparr>)"

text \<open>The array \<open>effects\<close> after the records \<open>es\<close> have been pushed.\<close>

definition pushEffects :: "uref list option \<Rightarrow> uref list \<Rightarrow> uref list option" where
  "pushEffects e0 es =
     (if es = [] then e0 else Some ((case e0 of None \<Rightarrow> [] | Some xs \<Rightarrow> xs) @ es))"

text \<open>
  The world \<open>w\<close> differs from \<open>w0\<close> at most in the records, the queues, the fibers and
  \<open>hasForceUpdate\<close>: what \<open>processUpdateQueue\<close> writes while it walks.
\<close>

definition sameOutside :: "('s, 'p, 'i) World \<Rightarrow> ('s, 'p, 'i) World \<Rightarrow> bool" where
  "sameOutside w0 w =
     (sharedQueues w = sharedQueues w0 \<and> roots w = roots w0
      \<and> didWarnUpdateInsideUpdate w = didWarnUpdateInsideUpdate w0
      \<and> currentlyProcessingQueue w = currentlyProcessingQueue w0
      \<and> concurrentQueues w = concurrentQueues w0
      \<and> concurrentQueuesIndex w = concurrentQueuesIndex w0
      \<and> concurrentlyUpdatedLanes w = concurrentlyUpdatedLanes w0
      \<and> workInProgressRootRenderLanes w = workInProgressRootRenderLanes w0
      \<and> trace w = trace w0)"


text \<open>
  The base list of the queue \<open>q\<close> is the list of records \<open>rs\<close>, all of them allocated,
  and its pending list is empty.
\<close>

definition baseList :: "('s, 'p, 'i) World \<Rightarrow> qref \<Rightarrow> uref list \<Rightarrow> bool" where
  "baseList w q rs =
     (updateList (updates w) (firstBaseUpdate (queues w q)) rs
      \<and> list_all (\<lambda>r. r < nextUpdate w) rs
      \<and> pending (sharedQueues w (shared (queues w q))) = None)"

text \<open>The statements of \<open>processUpdateQueue\<close> before the pending list is looked at.\<close>

definition startProcessing ::
  "'s Env \<Rightarrow> qref \<Rightarrow> ('s, 'p, 'i) World \<Rightarrow> ('s, 'p, 'i) World" where
  "startProcessing env queue w =
     (if DEV env
      then w\<lparr>hasForceUpdate := False,
             currentlyProcessingQueue := Some (shared (queues w queue))\<rparr>
      else w\<lparr>hasForceUpdate := False\<rparr>)"


text \<open>
  The state that the records still to be applied amount to: the state of the walk when
  nothing was skipped, and otherwise the clones applied to the base state taken at the
  first skip.
\<close>

definition walkFull :: "'s Env \<Rightarrow> 'p \<Rightarrow> 'i \<Rightarrow> ('s, 'p, 'i) Walk \<Rightarrow> 's JSValue" where
  "walkFull env props instance a =
     (if walkClones a = [] then walkState a
      else applyUpdates env props instance (walkClones a) (walkBase a))"

text \<open>The merge of the lanes of a list of records.\<close>

definition lanesOf :: "('s, 'p, 'i) Update list \<Rightarrow> Lanes" where
  "lanesOf us = foldl mergeLanes NoLanes (map lane us)"

text \<open>
  The record \<open>u\<close> qualifies in a pass with these render lanes, and so does the clone that
  an earlier pass has made of it: the clone has lost the Offscreen bit and is tested
  against \<open>renderLanes\<close>.
\<close>

definition qualifies :: "'s Env \<Rightarrow> Lanes \<Rightarrow> Lanes \<Rightarrow> ('s, 'p, 'i) Update \<Rightarrow> bool" where
  "qualifies env renderLanes rootRenderLanes u =
     (\<not> shouldSkipUpdate env renderLanes rootRenderLanes u
      \<and> isSubsetOfLanes renderLanes (removeLanes (lane u) (OffscreenLane env)))"

text \<open>
  Modelled from the spec: the passes of the work loop, which is not part of these files
  (section 8, \<open>processing every priority level that appears\<close>). Each pass has its render
  lanes and the render lanes of the root, and calls \<open>processUpdateQueue\<close> on the same
  fiber with the same props and instance.
\<close>

fun processPasses ::
  "'s Env \<Rightarrow> ('s, 'p, 'i) World \<Rightarrow> fref \<Rightarrow> 'p \<Rightarrow> 'i \<Rightarrow> (Lanes \<times> Lanes) list
     \<Rightarrow> ('s, 'p, 'i) World option" where
  "processPasses env w workInProgress props instance [] = Some w"
| "processPasses env w workInProgress props instance (pass # passes) =
     (case processUpdateQueue env (w\<lparr>workInProgressRootRenderLanes := snd pass\<rparr>)
             workInProgress props instance (fst pass) of
        None \<Rightarrow> None
      | Some w' \<Rightarrow> processPasses env w' workInProgress props instance passes)"


text \<open>The store of records with the callbacks of the records in \<open>S\<close> set to \<open>null\<close>.\<close>

definition clearCallbacks ::
  "uref set \<Rightarrow> (uref \<Rightarrow> ('s, 'p, 'i) Update) \<Rightarrow> (uref \<Rightarrow> ('s, 'p, 'i) Update)" where
  "clearCallbacks S us = (\<lambda>r. if r \<in> S then (us r)\<lparr>callback := None\<rparr> else us r)"


text \<open>
  The calls made for a list of records: the callback of each record that has one, with
  the instance as context, in the order of the list, and once for a record that occurs
  several times.
\<close>

fun callbackCalls :: "(uref \<Rightarrow> ('s, 'p, 'i) Update) \<Rightarrow> 'i \<Rightarrow> uref list \<Rightarrow> 'i Event list" where
  "callbackCalls us i [] = []"
| "callbackCalls us i (e # es) =
     (case callback (us e) of
        Some (CallbackFunction c) \<Rightarrow> [CallbackCalled c i]
      | _ \<Rightarrow> [])
     @ callbackCalls us i (filter (\<lambda>x. x \<noteq> e) es)"

text \<open>
  The world after \<open>commitUpdateQueue\<close> has gone through the effects \<open>es\<close> of the queue \<open>q\<close>
  and has set the callbacks of the records \<open>S\<close> to \<open>null\<close>.
\<close>

definition committed ::
  "('s, 'p, 'i) World \<Rightarrow> qref \<Rightarrow> 'i \<Rightarrow> uref list \<Rightarrow> uref set \<Rightarrow> ('s, 'p, 'i) World" where
  "committed w q i es S =
     w\<lparr>updates := clearCallbacks S (updates w),
       queues := (queues w)(q := (queues w q)\<lparr>effects := None\<rparr>),
       trace := trace w @ callbackCalls (updates w) i es\<rparr>"

section \<open>Properties\<close>

subsection \<open>Lanes\<close>

lemma isSubsetOfLanes_NoLane: "isSubsetOfLanes a NoLane"
  by (simp add: isSubsetOfLanes_def NoLane_def)


lemma mergeLanes_NoLanes: "mergeLanes a NoLanes = a" "mergeLanes NoLanes a = a"
  by (simp_all add: mergeLanes_def NoLanes_def)

lemma mergeLanes_idem: "mergeLanes (mergeLanes a b) b = mergeLanes a b"
  by (simp add: mergeLanes_def or.assoc)



lemma not_isSubsetOfLanes_nonzero: "\<not> isSubsetOfLanes a b \<Longrightarrow> b \<noteq> NoLane"
  using isSubsetOfLanes_NoLane by blast

lemma intersect_merge_disjoint:
  "intersectLanes t p = NoLanes \<Longrightarrow> intersectLanes t l = NoLanes
     \<Longrightarrow> intersectLanes (mergeLanes (intersectLanes a p) l) t = NoLanes"
proof -
  assume tp: "intersectLanes t p = NoLanes" and tl: "intersectLanes t l = NoLanes"
  have "(a AND p OR l) AND t = (a AND (t AND p)) OR (t AND l)"
    by (simp add: bit_eq_iff bit_and_iff bit_or_iff) blast
  with tp tl show ?thesis
    by (simp add: intersectLanes_def mergeLanes_def NoLanes_def)
qed

subsection \<open>Reading a store after an assignment\<close>

lemma modifyFiber_simps [simp]:
  "fibers (modifyFiber x f w) = (fibers w)(x := f (fibers w x))"
  "updates (modifyFiber x f w) = updates w"
  "queues (modifyFiber x f w) = queues w"
  "sharedQueues (modifyFiber x f w) = sharedQueues w"
  "roots (modifyFiber x f w) = roots w"
  "trace (modifyFiber x f w) = trace w"
  "nextUpdate (modifyFiber x f w) = nextUpdate w"
  "hasForceUpdate (modifyFiber x f w) = hasForceUpdate w"
  "didWarnUpdateInsideUpdate (modifyFiber x f w) = didWarnUpdateInsideUpdate w"
  "currentlyProcessingQueue (modifyFiber x f w) = currentlyProcessingQueue w"
  "concurrentQueues (modifyFiber x f w) = concurrentQueues w"
  "concurrentQueuesIndex (modifyFiber x f w) = concurrentQueuesIndex w"
  "concurrentlyUpdatedLanes (modifyFiber x f w) = concurrentlyUpdatedLanes w"
  "workInProgressRootRenderLanes (modifyFiber x f w) = workInProgressRootRenderLanes w"
  by (simp_all add: modifyFiber_def)

lemma modifyUpdate_simps [simp]:
  "updates (modifyUpdate r f w) = (updates w)(r := f (updates w r))"
  "fibers (modifyUpdate r f w) = fibers w"
  "queues (modifyUpdate r f w) = queues w"
  "sharedQueues (modifyUpdate r f w) = sharedQueues w"
  "roots (modifyUpdate r f w) = roots w"
  "trace (modifyUpdate r f w) = trace w"
  "nextUpdate (modifyUpdate r f w) = nextUpdate w"
  "hasForceUpdate (modifyUpdate r f w) = hasForceUpdate w"
  "didWarnUpdateInsideUpdate (modifyUpdate r f w) = didWarnUpdateInsideUpdate w"
  "currentlyProcessingQueue (modifyUpdate r f w) = currentlyProcessingQueue w"
  "concurrentQueues (modifyUpdate r f w) = concurrentQueues w"
  "concurrentQueuesIndex (modifyUpdate r f w) = concurrentQueuesIndex w"
  "concurrentlyUpdatedLanes (modifyUpdate r f w) = concurrentlyUpdatedLanes w"
  "workInProgressRootRenderLanes (modifyUpdate r f w) = workInProgressRootRenderLanes w"
  by (simp_all add: modifyUpdate_def)

lemma modifyQueue_simps [simp]:
  "queues (modifyQueue q f w) = (queues w)(q := f (queues w q))"
  "updates (modifyQueue q f w) = updates w"
  "fibers (modifyQueue q f w) = fibers w"
  "sharedQueues (modifyQueue q f w) = sharedQueues w"
  "roots (modifyQueue q f w) = roots w"
  "trace (modifyQueue q f w) = trace w"
  "nextUpdate (modifyQueue q f w) = nextUpdate w"
  "hasForceUpdate (modifyQueue q f w) = hasForceUpdate w"
  "didWarnUpdateInsideUpdate (modifyQueue q f w) = didWarnUpdateInsideUpdate w"
  "currentlyProcessingQueue (modifyQueue q f w) = currentlyProcessingQueue w"
  "concurrentQueues (modifyQueue q f w) = concurrentQueues w"
  "concurrentQueuesIndex (modifyQueue q f w) = concurrentQueuesIndex w"
  "concurrentlyUpdatedLanes (modifyQueue q f w) = concurrentlyUpdatedLanes w"
  "workInProgressRootRenderLanes (modifyQueue q f w) = workInProgressRootRenderLanes w"
  by (simp_all add: modifyQueue_def)

lemma modifyShared_simps [simp]:
  "sharedQueues (modifyShared s f w) = (sharedQueues w)(s := f (sharedQueues w s))"
  "updates (modifyShared s f w) = updates w"
  "fibers (modifyShared s f w) = fibers w"
  "queues (modifyShared s f w) = queues w"
  "roots (modifyShared s f w) = roots w"
  "trace (modifyShared s f w) = trace w"
  "nextUpdate (modifyShared s f w) = nextUpdate w"
  "hasForceUpdate (modifyShared s f w) = hasForceUpdate w"
  "didWarnUpdateInsideUpdate (modifyShared s f w) = didWarnUpdateInsideUpdate w"
  "currentlyProcessingQueue (modifyShared s f w) = currentlyProcessingQueue w"
  "concurrentQueues (modifyShared s f w) = concurrentQueues w"
  "concurrentQueuesIndex (modifyShared s f w) = concurrentQueuesIndex w"
  "concurrentlyUpdatedLanes (modifyShared s f w) = concurrentlyUpdatedLanes w"
  "workInProgressRootRenderLanes (modifyShared s f w) = workInProgressRootRenderLanes w"
  by (simp_all add: modifyShared_def)

lemma emit_simps [simp]:
  "trace (emit e w) = trace w @ [e]"
  "updates (emit e w) = updates w"
  "fibers (emit e w) = fibers w"
  "queues (emit e w) = queues w"
  "sharedQueues (emit e w) = sharedQueues w"
  "roots (emit e w) = roots w"
  "nextUpdate (emit e w) = nextUpdate w"
  "hasForceUpdate (emit e w) = hasForceUpdate w"
  "didWarnUpdateInsideUpdate (emit e w) = didWarnUpdateInsideUpdate w"
  "currentlyProcessingQueue (emit e w) = currentlyProcessingQueue w"
  "concurrentQueues (emit e w) = concurrentQueues w"
  "concurrentQueuesIndex (emit e w) = concurrentQueuesIndex w"
  "concurrentlyUpdatedLanes (emit e w) = concurrentlyUpdatedLanes w"
  "workInProgressRootRenderLanes (emit e w) = workInProgressRootRenderLanes w"
  by (simp_all add: emit_def)

subsection \<open>getStateFromUpdate\<close>

text \<open>
  C10. For every previous state, props and update with tag \<open>UpdateState\<close> whose payload
  is \<open>null\<close> or \<open>undefined\<close>, or whose payload function returns \<open>null\<close> or
  \<open>undefined\<close>, \<open>getStateFromUpdate\<close> returns the previous state itself, and changes
  nothing else.
\<close>

theorem getStateFromUpdate_UpdateState_no_partial_state:
  assumes "Update.tag (updates w update) = UpdateState"
    and "payload (updates w update) = PayloadValue JSNull
         \<or> payload (updates w update) = PayloadValue JSUndefined
         \<or> (\<exists>f. payload (updates w update) = PayloadFunction f
                \<and> (f instance prevState nextProps = JSNull
                     \<or> f instance prevState nextProps = JSUndefined))"
  shows "getStateFromUpdate env w workInProgress queue update prevState nextProps instance
           = (w, prevState)"
  using assms by (auto simp: getStateFromUpdate_def updateStateCase_def)

theorem getStateFromUpdate_UpdateState_no_partial_state_witness:
  "Update.tag (updates (modifyUpdate 1 (\<lambda>u. u\<lparr>Update.tag := UpdateState,
        payload := PayloadFunction (\<lambda>_ _ _. JSUndefined)\<rparr>) exampleWorld) 1) = UpdateState
   \<and> getStateFromUpdate exampleEnv
        (modifyUpdate 1 (\<lambda>u. u\<lparr>Update.tag := UpdateState,
           payload := PayloadFunction (\<lambda>_ _ _. JSUndefined)\<rparr>) exampleWorld)
        0 0 1 (JSValue ''s'') () ()
      = (modifyUpdate 1 (\<lambda>u. u\<lparr>Update.tag := UpdateState,
           payload := PayloadFunction (\<lambda>_ _ _. JSUndefined)\<rparr>) exampleWorld, JSValue ''s'')"
  using getStateFromUpdate_UpdateState_no_partial_state
          [of "modifyUpdate 1 (\<lambda>u. u\<lparr>Update.tag := UpdateState,
                 payload := PayloadFunction (\<lambda>_ _ _. JSUndefined)\<rparr>) exampleWorld" 1
              "()" "JSValue ''s''" "()" exampleEnv 0 0]
  by simp

subsection \<open>enqueueUpdate on an unmounted fiber\<close>

text \<open>
  C8. For every fiber whose \<open>updateQueue\<close> is \<open>null\<close>, \<open>enqueueUpdate\<close> returns
  \<open>null\<close> and leaves the whole world as it was: no list is linked, no lane is merged,
  nothing is staged, no warning is printed, and the call returns normally.
\<close>

theorem enqueueUpdate_unmounted:
  assumes "updateQueue (fibers w fiber) = None"
  shows "enqueueUpdate env w fiber update lane' = Some (w, None)"
  using assms by (simp add: enqueueUpdate_def)

theorem enqueueUpdate_unmounted_witness:
  "updateQueue (fibers (modifyFiber 7 (\<lambda>f. f\<lparr>updateQueue := None\<rparr>) exampleWorld) 7) = None
   \<and> enqueueUpdate exampleEnv (modifyFiber 7 (\<lambda>f. f\<lparr>updateQueue := None\<rparr>) exampleWorld) 7 1 1
       = Some (modifyFiber 7 (\<lambda>f. f\<lparr>updateQueue := None\<rparr>) exampleWorld, None)"
  using enqueueUpdate_unmounted
          [of "modifyFiber 7 (\<lambda>f. f\<lparr>updateQueue := None\<rparr>) exampleWorld" 7 exampleEnv 1 1]
  by simp

subsection \<open>entangleTransitions\<close>

text \<open>
  C7. For a mounted fiber (its \<open>updateQueue\<close> is not \<open>null\<close>) and a transition lane,
  \<open>entangleTransitions\<close> sets the lanes of the shared queue to
  \<open>merge (intersect oldLanes root.pendingLanes) lane\<close> and calls \<open>markRootEntangled\<close>
  with exactly that set; a lane \<open>t\<close> that is neither pending on the root nor the lane
  being entangled is not in the new set, whatever the old set was. For a lane that is not
  a transition lane the call changes nothing.
\<close>

theorem entangleTransitions_prunes_and_entangles:
  assumes "updateQueue (fibers w fiber) = Some q"
  shows "(isTransitionLane env lane' \<longrightarrow>
           (let s = shared (queues w q);
                newQueueLanes =
                  mergeLanes (intersectLanes (SharedQueue.lanes (sharedQueues w s))
                                (pendingLanes (roots w root))) lane';
                w' = entangleTransitions env w root fiber lane'
            in SharedQueue.lanes (sharedQueues w' s) = newQueueLanes
               \<and> trace w' = trace w @ [MarkRootEntangled root newQueueLanes]
               \<and> (\<forall>t. intersectLanes t (pendingLanes (roots w root)) = NoLanes
                       \<and> intersectLanes t lane' = NoLanes
                     \<longrightarrow> intersectLanes newQueueLanes t = NoLanes)))
       \<and> (\<not> isTransitionLane env lane' \<longrightarrow> entangleTransitions env w root fiber lane' = w)"
  using assms
  by (simp add: entangleTransitions_def Let_def intersect_merge_disjoint)

theorem entangleTransitions_prunes_and_entangles_witness:
  "updateQueue (fibers entangledWorld 0) = Some 0
   \<and> isTransitionLane exampleEnv 0x80
   \<and> SharedQueue.lanes (sharedQueues (entangleTransitions exampleEnv entangledWorld 0 0 0x80) 0) = 0x80
   \<and> trace (entangleTransitions exampleEnv entangledWorld 0 0 0x80) = [MarkRootEntangled 0 0x80]
   \<and> intersectLanes (SharedQueue.lanes
          (sharedQueues (entangleTransitions exampleEnv entangledWorld 0 0 0x80) 0)) 0x40 = NoLanes"
  using entangleTransitions_prunes_and_entangles [of entangledWorld 0 0 exampleEnv "0x80" 0]
  by (simp add: entangledWorld_def exampleWorld_def exampleEnv_def exampleFiber_def Let_def
        mergeLanes_def intersectLanes_def NoLanes_def)

subsection \<open>markUpdateLaneFromFiberToRoot\<close>

lemma markChildLanes_fields [simp]:
  "alternate (markChildLanes l A fs x) = alternate (fs x)"
  "return (markChildLanes l A fs x) = return (fs x)"
  "Fiber.tag (markChildLanes l A fs x) = Fiber.tag (fs x)"
  "stateNode (markChildLanes l A fs x) = stateNode (fs x)"
  "Fiber.lanes (markChildLanes l A fs x) = Fiber.lanes (fs x)"
  "flags (markChildLanes l A fs x) = flags (fs x)"
  "updateQueue (markChildLanes l A fs x) = updateQueue (fs x)"
  "memoizedState (markChildLanes l A fs x) = memoizedState (fs x)"
  by (simp_all add: markChildLanes_def)

lemma markChildLanes_childLanes:
  "childLanes (markChildLanes l A fs x) =
     (if x \<in> A then mergeLanes (childLanes (fs x)) l else childLanes (fs x))"
  by (simp add: markChildLanes_def)

lemma markChildLanes_twice:
  "markChildLanes l A (markChildLanes l B fs) = markChildLanes l (A \<union> B) fs"
  by (rule ext) (simp add: markChildLanes_def mergeLanes_idem)

lemma markChildLanes_empty [simp]: "markChildLanes l {} fs = fs"
  by (rule ext) (simp add: markChildLanes_def)

lemma returnChain_cong:
  "(\<And>x. return (fs' x) = return (fs x)) \<Longrightarrow> returnChain fs' p as = returnChain fs p as"
  by (induction as arbitrary: p) auto

lemma withAlternates_cong:
  "(\<And>x. alternate (fs' x) = alternate (fs x)) \<Longrightarrow> withAlternates fs' as = withAlternates fs as"
  by (simp add: withAlternates_def)

lemma hiddenOffscreen_cong:
  "(\<And>x. Fiber.tag (fs' x) = Fiber.tag (fs x)) \<Longrightarrow> (\<And>x. stateNode (fs' x) = stateNode (fs x))
    \<Longrightarrow> hiddenOffscreen fs' as = hiddenOffscreen fs as"
  by (simp add: hiddenOffscreen_def)

lemma withAlternates_Cons:
  "withAlternates fs (a # as) = withAlternates fs as \<union> withAlternates fs [a]"
  by (auto simp: withAlternates_def)

lemma withAlternates_Nil [simp]: "withAlternates fs [] = {}"
  by (simp add: withAlternates_def)

lemma hiddenOffscreen_Cons:
  "hiddenOffscreen fs (a # as) =
     ((Fiber.tag (fs a) = OffscreenComponent \<and> stateNode (fs a) = OffscreenInstance True)
      \<or> hiddenOffscreen fs as)"
  by (simp add: hiddenOffscreen_def)

text \<open>One round of the loop, on the fibers.\<close>
lemma mark_parent_and_alternate:
  "fibers (case alternate (fibers (modifyFiber a (\<lambda>f. f\<lparr>childLanes := mergeLanes (childLanes f) l\<rparr>) w) a) of
        None \<Rightarrow> modifyFiber a (\<lambda>f. f\<lparr>childLanes := mergeLanes (childLanes f) l\<rparr>) w
      | Some b \<Rightarrow> modifyFiber b (\<lambda>f. f\<lparr>childLanes := mergeLanes (childLanes f) l\<rparr>)
                   (modifyFiber a (\<lambda>f. f\<lparr>childLanes := mergeLanes (childLanes f) l\<rparr>) w))
   = markChildLanes l (withAlternates (fibers w) [a]) (fibers w)"
  by (rule ext)
     (auto simp: markChildLanes_def withAlternates_def mergeLanes_idem split: option.splits)

lemma mark_parent_and_alternate_world:
  "(case alternate (fibers (modifyFiber a (\<lambda>f. f\<lparr>childLanes := mergeLanes (childLanes f) l\<rparr>) w) a) of
        None \<Rightarrow> modifyFiber a (\<lambda>f. f\<lparr>childLanes := mergeLanes (childLanes f) l\<rparr>) w
      | Some b \<Rightarrow> modifyFiber b (\<lambda>f. f\<lparr>childLanes := mergeLanes (childLanes f) l\<rparr>)
                   (modifyFiber a (\<lambda>f. f\<lparr>childLanes := mergeLanes (childLanes f) l\<rparr>) w))
   = w\<lparr>fibers := markChildLanes l (withAlternates (fibers w) [a]) (fibers w)\<rparr>"
proof -
  let ?w2 = "(case alternate (fibers (modifyFiber a (\<lambda>f. f\<lparr>childLanes := mergeLanes (childLanes f) l\<rparr>) w) a) of
        None \<Rightarrow> modifyFiber a (\<lambda>f. f\<lparr>childLanes := mergeLanes (childLanes f) l\<rparr>) w
      | Some b \<Rightarrow> modifyFiber b (\<lambda>f. f\<lparr>childLanes := mergeLanes (childLanes f) l\<rparr>)
                   (modifyFiber a (\<lambda>f. f\<lparr>childLanes := mergeLanes (childLanes f) l\<rparr>) w))"
  have "?w2 = w\<lparr>fibers := fibers ?w2\<rparr>"
    by (simp add: modifyFiber_def split: option.splits)
  then show ?thesis
    by (simp only: mark_parent_and_alternate)
qed

lemma not_imp_eq_disj: "(\<not> b \<longrightarrow> a) = (a \<or> b)"
  by auto

lemma loop_chain:
  "returnChain (fibers w) parent as \<Longrightarrow>
   markUpdateLaneFromFiberToRoot_loop w l isHidden parent node =
     Some (w\<lparr>fibers := markChildLanes l (withAlternates (fibers w) as) (fibers w)\<rparr>,
           isHidden \<or> hiddenOffscreen (fibers w) as, last (node # as))"
proof (induction as arbitrary: w isHidden parent node)
  case Nil
  then show ?case
    by (subst markUpdateLaneFromFiberToRoot_loop.simps)
       (simp add: hiddenOffscreen_def)
next
  case (Cons a as)
  define w2 where "w2 = w\<lparr>fibers := markChildLanes l (withAlternates (fibers w) [a]) (fibers w)\<rparr>"
  have parent: "parent = Some a" and chain: "returnChain (fibers w) (return (fibers w a)) as"
    using Cons.prems by simp_all
  have chain2: "returnChain (fibers w2) (return (fibers w2 a)) as"
    using chain by (simp add: w2_def returnChain_cong [of "markChildLanes l _ (fibers w)" "fibers w"])
  have alts: "withAlternates (fibers w2) as = withAlternates (fibers w) as"
    by (simp add: w2_def withAlternates_cong [of "markChildLanes l _ (fibers w)" "fibers w"])
  have hid: "hiddenOffscreen (fibers w2) as = hiddenOffscreen (fibers w) as"
    by (simp add: w2_def hiddenOffscreen_cong [of "markChildLanes l _ (fibers w)" "fibers w"])
  have step: "markUpdateLaneFromFiberToRoot_loop w l isHidden parent node =
        markUpdateLaneFromFiberToRoot_loop w2 l
          (isHidden \<or> (Fiber.tag (fibers w a) = OffscreenComponent \<and> stateNode (fibers w a) = OffscreenInstance True))
          (return (fibers w2 a)) a"
    apply (subst markUpdateLaneFromFiberToRoot_loop.simps)
    apply (simp only: parent option.case Let_def mark_parent_and_alternate_world)
    apply (simp add: w2_def not_imp_eq_disj split: StateNode.splits)
    done
  show ?case
    unfolding step
    apply (subst Cons.IH [OF chain2])
    apply (simp add: alts hid hiddenOffscreen_Cons)
    apply (simp add: w2_def markChildLanes_twice withAlternates_Cons [of _ a as])
    done
qed

lemma markLanes_fields [simp]:
  "alternate (markLanes l A fs x) = alternate (fs x)"
  "return (markLanes l A fs x) = return (fs x)"
  "Fiber.tag (markLanes l A fs x) = Fiber.tag (fs x)"
  "stateNode (markLanes l A fs x) = stateNode (fs x)"
  "childLanes (markLanes l A fs x) = childLanes (fs x)"
  "flags (markLanes l A fs x) = flags (fs x)"
  "updateQueue (markLanes l A fs x) = updateQueue (fs x)"
  "memoizedState (markLanes l A fs x) = memoizedState (fs x)"
  by (simp_all add: markLanes_def)

lemma markLanes_lanes:
  "Fiber.lanes (markLanes l A fs x) =
     (if x \<in> A then mergeLanes (Fiber.lanes (fs x)) l else Fiber.lanes (fs x))"
  by (simp add: markLanes_def)

text \<open>The first statements of the function, and of the private enqueueUpdate.\<close>

lemma mark_source_and_alternate:
  "(case alternate (fibers (modifyFiber f (\<lambda>x. x\<lparr>Fiber.lanes := mergeLanes (Fiber.lanes x) l\<rparr>) w) f) of
        None \<Rightarrow> modifyFiber f (\<lambda>x. x\<lparr>Fiber.lanes := mergeLanes (Fiber.lanes x) l\<rparr>) w
      | Some b \<Rightarrow> modifyFiber b (\<lambda>x. x\<lparr>Fiber.lanes := mergeLanes (Fiber.lanes x) l\<rparr>)
                   (modifyFiber f (\<lambda>x. x\<lparr>Fiber.lanes := mergeLanes (Fiber.lanes x) l\<rparr>) w))
   = w\<lparr>fibers := markLanes l (withAlternates (fibers w) [f]) (fibers w)\<rparr>"
  (is "?w2 = _")
proof -
  have "fibers ?w2 = markLanes l (withAlternates (fibers w) [f]) (fibers w)"
    by (rule ext)
       (auto simp: markLanes_def withAlternates_def mergeLanes_idem split: option.splits)
  moreover have "?w2 = w\<lparr>fibers := fibers ?w2\<rparr>"
    by (simp add: modifyFiber_def split: option.splits)
  ultimately show ?thesis by simp
qed

lemma markUpdateLaneFromFiberToRoot_chain:
  assumes "returnChain (fibers w) (return (fibers w f)) as"
  shows "markUpdateLaneFromFiberToRoot w f u l =
           Some (w\<lparr>fibers := markedFibers l f as (fibers w),
                   trace := trace w @ hiddenUpdateEvents (fibers w) f as u l\<rparr>)"
proof -
  define w2 where "w2 = w\<lparr>fibers := markLanes l (withAlternates (fibers w) [f]) (fibers w)\<rparr>"
  have chain2: "returnChain (fibers w2) (return (fibers w2 f)) as"
    using assms by (simp add: w2_def returnChain_cong [of "markLanes l _ (fibers w)" "fibers w"])
  have alts: "withAlternates (fibers w2) as = withAlternates (fibers w) as"
    by (simp add: w2_def withAlternates_cong [of "markLanes l _ (fibers w)" "fibers w"])
  have hid: "hiddenOffscreen (fibers w2) as = hiddenOffscreen (fibers w) as"
    by (simp add: w2_def hiddenOffscreen_cong [of "markLanes l _ (fibers w)" "fibers w"])
  show ?thesis
    unfolding markUpdateLaneFromFiberToRoot_def Let_def mark_source_and_alternate
    apply (fold w2_def)
    apply (subst loop_chain [OF chain2])
    apply (simp add: alts hid)
    apply (simp add: w2_def markedFibers_def hiddenUpdateEvents_def emit_def split: option.splits)
    done
qed

text \<open>
  C5. For every fiber \<open>f\<close> whose \<open>return\<close> chain \<open>as\<close> ends (as it does in a tree),
  update \<open>u\<close> (possibly \<open>null\<close>) and lane \<open>l\<close>, \<open>markUpdateLaneFromFiberToRoot\<close>
  returns, and it has merged \<open>l\<close> into \<open>f.lanes\<close>, into \<open>f.alternate.lanes\<close> when the
  alternate exists, and into \<open>childLanes\<close> of every ancestor and of every ancestor's
  alternate. When some ancestor is a hidden Offscreen component, the topmost node is a
  HostRoot and \<open>u\<close> is not \<open>null\<close>, it has called \<open>markHiddenUpdate(root, u, l)\<close> with
  the \<open>stateNode\<close> of the topmost node, and otherwise it has made no outside call. No
  other \<open>lanes\<close> and no other \<open>childLanes\<close> have changed.
\<close>

theorem markUpdateLaneFromFiberToRoot_marks:
  assumes "returnChain (fibers w) (return (fibers w f)) as"
  shows "\<exists>w'. markUpdateLaneFromFiberToRoot w f u l = Some w'
     \<and> Fiber.lanes (fibers w' f) = mergeLanes (Fiber.lanes (fibers w f)) l
     \<and> (\<forall>b. alternate (fibers w f) = Some b
            \<longrightarrow> Fiber.lanes (fibers w' b) = mergeLanes (Fiber.lanes (fibers w b)) l)
     \<and> (\<forall>a \<in> set as.
            childLanes (fibers w' a) = mergeLanes (childLanes (fibers w a)) l
          \<and> (\<forall>b. alternate (fibers w a) = Some b
                 \<longrightarrow> childLanes (fibers w' b) = mergeLanes (childLanes (fibers w b)) l))
     \<and> trace w' = trace w @
          (case u of
             None \<Rightarrow> []
           | Some r \<Rightarrow>
               if hiddenOffscreen (fibers w) as \<and> Fiber.tag (fibers w (last (f # as))) = HostRoot
               then [MarkHiddenUpdate (stateNode (fibers w (last (f # as)))) r l] else [])
     \<and> (\<forall>x. x \<noteq> f \<and> alternate (fibers w f) \<noteq> Some x
            \<longrightarrow> Fiber.lanes (fibers w' x) = Fiber.lanes (fibers w x))
     \<and> (\<forall>x. x \<notin> withAlternates (fibers w) as
            \<longrightarrow> childLanes (fibers w' x) = childLanes (fibers w x))"
  unfolding markUpdateLaneFromFiberToRoot_chain [OF assms]
  by (auto simp: markedFibers_def markChildLanes_childLanes markLanes_lanes
                 hiddenUpdateEvents_def withAlternates_def split: option.splits)

lemma hiddenTree_chain: "returnChain (fibers hiddenTreeWorld) (return (fibers hiddenTreeWorld 6)) [2, 3]"
  by (simp add: hiddenTreeWorld_def exampleWorld_def exampleFiber_def)

lemma hiddenTree_fibers:
  "fibers hiddenTreeWorld 6 = exampleFiber\<lparr>return := Some 2, alternate := Some 4\<rparr>"
  "fibers hiddenTreeWorld 2 = exampleFiber\<lparr>Fiber.tag := OffscreenComponent,
      stateNode := OffscreenInstance True, return := Some 3, alternate := Some 5\<rparr>"
  "fibers hiddenTreeWorld 3 = exampleFiber\<lparr>Fiber.tag := HostRoot, stateNode := FiberRootNode 0\<rparr>"
  "fibers hiddenTreeWorld 4 = exampleFiber"
  "fibers hiddenTreeWorld 5 = exampleFiber"
  "trace hiddenTreeWorld = []"
  by (simp_all add: hiddenTreeWorld_def exampleWorld_def)

theorem markUpdateLaneFromFiberToRoot_marks_witness:
  "returnChain (fibers hiddenTreeWorld) (return (fibers hiddenTreeWorld 6)) [2, 3]
   \<and> (\<exists>w'. markUpdateLaneFromFiberToRoot hiddenTreeWorld 6 (Some 9) 4 = Some w'
         \<and> Fiber.lanes (fibers w' 6) = 4 \<and> Fiber.lanes (fibers w' 4) = 4
         \<and> childLanes (fibers w' 2) = 4 \<and> childLanes (fibers w' 5) = 4
         \<and> childLanes (fibers w' 3) = 4
         \<and> trace w' = [MarkHiddenUpdate (FiberRootNode 0) 9 4])"
proof -
  from markUpdateLaneFromFiberToRoot_marks [OF hiddenTree_chain, of "Some 9" 4]
  obtain w' where r: "markUpdateLaneFromFiberToRoot hiddenTreeWorld 6 (Some 9) 4 = Some w'"
    and l1: "Fiber.lanes (fibers w' 6) = mergeLanes (Fiber.lanes (fibers hiddenTreeWorld 6)) 4"
    and l2: "\<forall>b. alternate (fibers hiddenTreeWorld 6) = Some b
            \<longrightarrow> Fiber.lanes (fibers w' b) = mergeLanes (Fiber.lanes (fibers hiddenTreeWorld b)) 4"
    and c: "\<forall>a \<in> set [2, 3].
            childLanes (fibers w' a) = mergeLanes (childLanes (fibers hiddenTreeWorld a)) 4
          \<and> (\<forall>b. alternate (fibers hiddenTreeWorld a) = Some b
                 \<longrightarrow> childLanes (fibers w' b) = mergeLanes (childLanes (fibers hiddenTreeWorld b)) 4)"
    and t: "trace w' = trace hiddenTreeWorld @
          (case Some 9 of
             None \<Rightarrow> []
           | Some r \<Rightarrow>
               if hiddenOffscreen (fibers hiddenTreeWorld) [2, 3]
                  \<and> Fiber.tag (fibers hiddenTreeWorld (last [6, 2, 3])) = HostRoot
               then [MarkHiddenUpdate (stateNode (fibers hiddenTreeWorld (last [6, 2, 3]))) r 4]
               else [])"
    by blast
  show ?thesis
    using hiddenTree_chain r l1 l2 c t
    by (simp add: hiddenTree_fibers exampleFiber_def hiddenOffscreen_def mergeLanes_def)
qed

subsection \<open>getRootForUpdatedFiber\<close>





subsection \<open>enqueueUpdate inside an update function\<close>



lemma modifyFiber_setConsole:
  "modifyFiber x f (setConsole t d c w) = setConsole t d c (modifyFiber x f w)"
  by (simp add: modifyFiber_def setConsole_def)

lemma setConsole_fields [simp]:
  "fibers (setConsole t d c w) = fibers w"
  "updates (setConsole t d c w) = updates w"
  "queues (setConsole t d c w) = queues w"
  "sharedQueues (setConsole t d c w) = sharedQueues w"
  "trace (setConsole t d c w) = t"
  "didWarnUpdateInsideUpdate (setConsole t d c w) = d"
  "currentlyProcessingQueue (setConsole t d c w) = c"
  "concurrentlyUpdatedLanes (setConsole t d c w) = concurrentlyUpdatedLanes w"
  "concurrentQueues (setConsole t d c w) = concurrentQueues w"
  "concurrentQueuesIndex (setConsole t d c w) = concurrentQueuesIndex w"
  by (simp_all add: setConsole_def)


lemma linkPending_fields [simp]:
  "fibers (linkPending q u w) = fibers w"
  "trace (linkPending q u w) = trace w"
  "didWarnUpdateInsideUpdate (linkPending q u w) = didWarnUpdateInsideUpdate w"
  "currentlyProcessingQueue (linkPending q u w) = currentlyProcessingQueue w"
  "queues (linkPending q u w) = queues w"
  by (simp_all add: linkPending_def Let_def split: option.splits)

lemma pushSlot_fields [simp]:
  "fibers (pushSlot v w) = fibers w"
  "trace (pushSlot v w) = trace w"
  "updates (pushSlot v w) = updates w"
  "queues (pushSlot v w) = queues w"
  "sharedQueues (pushSlot v w) = sharedQueues w"
  "didWarnUpdateInsideUpdate (pushSlot v w) = didWarnUpdateInsideUpdate w"
  "currentlyProcessingQueue (pushSlot v w) = currentlyProcessingQueue w"
  "concurrentlyUpdatedLanes (pushSlot v w) = concurrentlyUpdatedLanes w"
  by (simp_all add: pushSlot_def)

lemma enqueueUpdate_Concurrent_fields [simp]:
  "trace (enqueueUpdate_Concurrent w f q u l) = trace w"
  "updates (enqueueUpdate_Concurrent w f q u l) = updates w"
  "queues (enqueueUpdate_Concurrent w f q u l) = queues w"
  "sharedQueues (enqueueUpdate_Concurrent w f q u l) = sharedQueues w"
  "didWarnUpdateInsideUpdate (enqueueUpdate_Concurrent w f q u l) = didWarnUpdateInsideUpdate w"
  "currentlyProcessingQueue (enqueueUpdate_Concurrent w f q u l) = currentlyProcessingQueue w"
  by (simp_all add: enqueueUpdate_Concurrent_def Let_def split: option.splits)

lemma enqueueUpdate_Concurrent_fibers:
  "fibers (enqueueUpdate_Concurrent w f q u l) = markLanes l (withAlternates (fibers w) [f]) (fibers w)"
  by (rule ext)
     (auto simp: enqueueUpdate_Concurrent_def Let_def markLanes_def withAlternates_def
                 mergeLanes_idem split: option.splits)



lemma markedFibers_fields [simp]:
  "alternate (markedFibers l f as fs x) = alternate (fs x)"
  "return (markedFibers l f as fs x) = return (fs x)"
  "Fiber.tag (markedFibers l f as fs x) = Fiber.tag (fs x)"
  "stateNode (markedFibers l f as fs x) = stateNode (fs x)"
  "flags (markedFibers l f as fs x) = flags (fs x)"
  "updateQueue (markedFibers l f as fs x) = updateQueue (fs x)"
  "memoizedState (markedFibers l f as fs x) = memoizedState (fs x)"
  by (simp_all add: markedFibers_def)








lemma setConsole_setConsole [simp]:
  "setConsole t d c (setConsole t' d' c' w) = setConsole t d c w"
  by (simp add: setConsole_def)





subsection \<open>The example of the header comment\<close>

text \<open>
  C2. Starting from base state \<open>''\<close> with the base list \<open>A@1, B@2, C@1, D@2\<close> (each
  update appends its letter), \<open>processUpdateQueue\<close> at the render lanes \<open>{1}\<close> returns
  with the state \<open>AC\<close>, leaves \<open>baseState = A\<close> and the base list
  \<open>[B@2, C@NoLane, D@2]\<close> (the three clones, at the addresses 5, 6 and 7); a second
  \<open>processUpdateQueue\<close> at the render lanes \<open>{1, 2}\<close> then returns with the state
  \<open>ABCD\<close>.
\<close>

theorem processUpdateQueue_skip_then_rebase:
  "(case processUpdateQueue exampleEnv exampleWorld 0 () () 1 of
      None \<Rightarrow> False
    | Some w1 \<Rightarrow>
        memoizedState (fibers w1 0) = JSValue ''AC''
      \<and> baseState (queues w1 0) = JSValue ''A''
      \<and> updateList (updates w1) (firstBaseUpdate (queues w1 0)) [5, 6, 7]
      \<and> lastBaseUpdate (queues w1 0) = Some 7
      \<and> map (\<lambda>r. letterOf (updates w1 r)) [5, 6, 7] = [JSValue ''B'', JSValue ''C'', JSValue ''D'']
      \<and> map (\<lambda>r. lane (updates w1 r)) [5, 6, 7] = [2, NoLane, 2]
      \<and> (case processUpdateQueue exampleEnv w1 0 () () 3 of
            None \<Rightarrow> False
          | Some w2 \<Rightarrow> memoizedState (fibers w2 0) = JSValue ''ABCD''))"
  by code_simp

subsection \<open>Staging and flushing\<close>

lemma length_arraySet: "length (arraySet xs i v) = max (length xs) (Suc i)"
  by (auto simp: arraySet_def)

lemma arrayGet_arraySet:
  "arrayGet (arraySet xs i v) j = (if j = i then v else arrayGet xs j)"
  by (auto simp: arrayGet_def arraySet_def nth_append)

lemma stagedAt_arraySet_below:
  "j < i \<Longrightarrow> stagedAt (arraySet xs j v) i ts = stagedAt xs i ts"
  by (induction xs i ts rule: stagedAt.induct) (auto simp: arrayGet_arraySet)

lemma stagedAt_arraySet_above:
  "i + 4 * length ts \<le> j \<Longrightarrow> stagedAt (arraySet xs j v) i ts = stagedAt xs i ts"
  by (induction xs i ts rule: stagedAt.induct) (auto simp: arrayGet_arraySet)

lemma stagedAt_append:
  "stagedAt xs i (ts @ us) = (stagedAt xs i ts \<and> stagedAt xs (i + 4 * length ts) us)"
  by (induction xs i ts rule: stagedAt.induct) (auto simp: add.assoc)

lemma enqueueUpdate_Concurrent_staged:
  "concurrentQueuesIndex (enqueueUpdate_Concurrent w f q u l) = concurrentQueuesIndex w + 4"
  "concurrentQueues (enqueueUpdate_Concurrent w f q u l) =
     arraySet (arraySet (arraySet (arraySet (concurrentQueues w)
        (concurrentQueuesIndex w) (SlotFiber f))
        (concurrentQueuesIndex w + 1) (queueSlot q))
        (concurrentQueuesIndex w + 2) (updateSlot u))
        (concurrentQueuesIndex w + 3) (SlotLane l)"
  by (simp_all add: enqueueUpdate_Concurrent_def Let_def pushSlot_def queueSlot_def
        updateSlot_def numeral_eq_Suc split: option.splits)

lemma stageAll_snoc:
  "stageAll w (ts @ [(f, q, u, l)]) = enqueueUpdate_Concurrent (stageAll w ts) f q u l"
  by (simp add: stageAll_def)

lemma stageAll_staged:
  "concurrentQueuesIndex (stageAll w ts) = concurrentQueuesIndex w + 4 * length ts
   \<and> stagedAt (concurrentQueues (stageAll w ts)) (concurrentQueuesIndex w) ts"
proof (induction ts rule: rev_induct)
  case Nil
  show ?case by (simp add: stageAll_def)
next
  case (snoc t ts)
  obtain f q u l where t: "t = (f, q, u, l)" by (cases t)
  show ?case
    using snoc
    by (simp add: t stageAll_snoc enqueueUpdate_Concurrent_staged stagedAt_append
          stagedAt_arraySet_above arrayGet_arraySet)
qed

lemma stageAll_fields [simp]:
  "updates (stageAll w ts) = updates w"
  "sharedQueues (stageAll w ts) = sharedQueues w"
  "queues (stageAll w ts) = queues w"
  "trace (stageAll w ts) = trace w"
  by (induction ts rule: rev_induct) (auto simp: stageAll_def)

lemma stageAll_return: "return (fibers (stageAll w ts) x) = return (fibers w x)"
proof (induction ts rule: rev_induct)
  case Nil
  show ?case by (simp add: stageAll_def)
next
  case (snoc t ts)
  obtain f q u l where t: "t = (f, q, u, l)" by (cases t)
  show ?case using snoc by (simp add: t stageAll_snoc enqueueUpdate_Concurrent_fibers)
qed

lemma clearSlot_fields [simp]:
  "fibers (clearSlot i w) = fibers w"
  "updates (clearSlot i w) = updates w"
  "sharedQueues (clearSlot i w) = sharedQueues w"
  "queues (clearSlot i w) = queues w"
  "trace (clearSlot i w) = trace w"
  "concurrentQueues (clearSlot i w) = arraySet (concurrentQueues w) i SlotNull"
  by (simp_all add: clearSlot_def)

lemma slotQueue_queueSlot [simp]: "slotQueue (queueSlot q) = Some q"
  by (simp add: slotQueue_def queueSlot_def split: option.splits)

lemma slotUpdate_updateSlot [simp]: "slotUpdate (updateSlot u) = Some u"
  by (simp add: slotUpdate_def updateSlot_def split: option.splits)

lemma linkPending_reads:
  assumes "updates a = updates b" and "sharedQueues a = sharedQueues b"
  shows "updates (linkPending q u a) = updates (linkPending q u b)"
    and "sharedQueues (linkPending q u a) = sharedQueues (linkPending q u b)"
  using assms by (simp_all add: linkPending_def Let_def split: option.splits)

lemma linkPending_concurrentQueues [simp]:
  "concurrentQueues (linkPending q u w) = concurrentQueues w"
  by (simp add: linkPending_def Let_def split: option.splits)

lemma linkStaged_reads:
  assumes "updates a = updates b" and "sharedQueues a = sharedQueues b"
  shows "updates (linkStaged t a) = updates (linkStaged t b)"
    and "sharedQueues (linkStaged t a) = sharedQueues (linkStaged t b)"
  using assms linkPending_reads [OF assms]
  by (auto simp: linkStaged_def split: prod.splits option.splits)

lemma linkStaged_fields [simp]:
  "fibers (linkStaged t w) = fibers w"
  "trace (linkStaged t w) = trace w"
  "concurrentQueues (linkStaged t w) = concurrentQueues w"
  by (simp_all add: linkStaged_def split: prod.splits option.splits)

lemma linkAll_reads:
  "updates a = updates b \<Longrightarrow> sharedQueues a = sharedQueues b \<Longrightarrow>
     updates (linkAll ts a) = updates (linkAll ts b)
     \<and> sharedQueues (linkAll ts a) = sharedQueues (linkAll ts b)"
proof (induction ts arbitrary: a b)
  case Nil
  then show ?case by (simp add: linkAll_def)
next
  case (Cons t ts)
  from Cons.IH [OF linkStaged_reads [OF Cons.prems]]
  show ?case by (simp add: linkAll_def)
qed

lemma linkAll_Cons: "linkAll (t # ts) w = linkAll ts (linkStaged t w)"
  by (simp add: linkAll_def)

lemma flush_step:
  assumes st: "stagedAt (concurrentQueues w) i ((f, q, u, l) # ts)"
    and e: "endIndex = i + 4 * length ((f, q, u, l) # ts)"
    and chain: "returnChain (fibers w) (return (fibers w f)) as"
  shows "\<exists>w6. finishQueueingConcurrentUpdates_loop w endIndex i =
                  finishQueueingConcurrentUpdates_loop w6 endIndex (i + 4)
     \<and> updates w6 = updates (linkStaged (f, q, u, l) w)
     \<and> sharedQueues w6 = sharedQueues (linkStaged (f, q, u, l) w)
     \<and> stagedAt (concurrentQueues w6) (i + 4) ts
     \<and> (\<forall>x. return (fibers w6 x) = return (fibers w x))"
proof -
  define w4 where "w4 = clearSlot (i + 3) (clearSlot (i + 2) (clearSlot (i + 1) (clearSlot i w)))"
  define w5 where "w5 = linkStaged (f, q, u, l) w4"
  have w5_alt: "w5 = (case (q, u) of (Some q', Some u') \<Rightarrow> linkPending q' u' w4 | _ \<Rightarrow> w4)"
    by (simp add: w5_def linkStaged_def split: option.splits)
  have chain5: "returnChain (fibers w5) (return (fibers w5 f)) as"
    using chain by (simp add: w5_def w4_def)
  have staged5: "stagedAt (concurrentQueues w5) (i + 4) ts"
    using st by (simp add: w5_def w4_def stagedAt_arraySet_below)
  have reads5: "updates w5 = updates (linkStaged (f, q, u, l) w)"
               "sharedQueues w5 = sharedQueues (linkStaged (f, q, u, l) w)"
    unfolding w5_def by (rule linkStaged_reads; simp add: w4_def)+
  have unfold: "finishQueueingConcurrentUpdates_loop w endIndex i =
      (if l \<noteq> NoLane
       then (case markUpdateLaneFromFiberToRoot w5 f u l of
               None \<Rightarrow> None
             | Some w6 \<Rightarrow> finishQueueingConcurrentUpdates_loop w6 endIndex (i + 4))
       else finishQueueingConcurrentUpdates_loop w5 endIndex (i + 4))"
  proof -
    have w4': "clearSlot (i + 3) (clearSlot (Suc (Suc i)) (clearSlot (Suc i) (clearSlot i w))) = w4"
      by (simp add: w4_def)
    show ?thesis
      apply (subst finishQueueingConcurrentUpdates_loop.simps)
      using st e
      apply (simp add: Let_def arrayGet_arraySet w5_alt w4' split: option.splits)
      done
  qed
  have f5: "fibers w5 = fibers w"
    by (simp add: w5_def w4_def)
  show ?thesis
  proof (cases "l = NoLane")
    case True
    show ?thesis
      using True unfold staged5 reads5 f5 by (intro exI [of _ w5]) simp
  next
    case False
    let ?w6 = "w5\<lparr>fibers := markedFibers l f as (fibers w5),
                   trace := trace w5 @ hiddenUpdateEvents (fibers w5) f as u l\<rparr>"
    have m: "markUpdateLaneFromFiberToRoot w5 f u l = Some ?w6"
      by (rule markUpdateLaneFromFiberToRoot_chain [OF chain5])
    show ?thesis
      using False unfold staged5 reads5 f5 m
      by (intro exI [of _ ?w6]) simp
  qed
qed

lemma flush_loop:
  assumes "stagedAt (concurrentQueues w) i ts" and "endIndex = i + 4 * length ts"
    and "\<forall>t \<in> set ts. \<exists>as. returnChain (fibers w) (return (fibers w (fst t))) as"
  shows "\<exists>w'. finishQueueingConcurrentUpdates_loop w endIndex i = Some w'
     \<and> updates w' = updates (linkAll ts w)
     \<and> sharedQueues w' = sharedQueues (linkAll ts w)"
  using assms
proof (induction ts arbitrary: w i)
  case Nil
  then show ?case
    by (subst finishQueueingConcurrentUpdates_loop.simps) (simp add: linkAll_def)
next
  case (Cons t ts)
  obtain f q u l where t: "t = (f, q, u, l)" by (cases t)
  from Cons.prems(3) obtain as where chain: "returnChain (fibers w) (return (fibers w f)) as"
    by (auto simp: t)
  from flush_step [OF Cons.prems(1) [unfolded t] Cons.prems(2) [unfolded t] chain]
  obtain w6 where step: "finishQueueingConcurrentUpdates_loop w endIndex i =
                  finishQueueingConcurrentUpdates_loop w6 endIndex (i + 4)"
     and u6: "updates w6 = updates (linkStaged (f, q, u, l) w)"
     and s6: "sharedQueues w6 = sharedQueues (linkStaged (f, q, u, l) w)"
     and st6: "stagedAt (concurrentQueues w6) (i + 4) ts"
     and r6: "\<forall>x. return (fibers w6 x) = return (fibers w x)"
    by blast
  have chains6: "\<forall>t \<in> set ts. \<exists>as. returnChain (fibers w6) (return (fibers w6 (fst t))) as"
    using Cons.prems(3) r6 by (simp add: returnChain_cong [of "fibers w6" "fibers w"])
  have e6: "endIndex = (i + 4) + 4 * length ts"
    using Cons.prems(2) by simp
  from Cons.IH [OF st6 e6 chains6] linkAll_reads [OF u6 s6, of ts]
  show ?case
    by (simp add: step t linkAll_Cons)
qed

lemma linkPending_circle:
  assumes circ: "pendingCircle w q rs" and d: "distinct (rs @ [r])"
  shows "pendingCircle (linkPending q r w) q (rs @ [r])"
proof (cases rs)
  case Nil
  then show ?thesis
    using circ by (simp add: pendingCircle_def linkPending_def)
next
  case (Cons a rs')
  define p where "p = last rs"
  have rs: "rs = butlast rs @ [p]" and ne: "rs \<noteq> []"
    using Cons by (simp_all add: p_def)
  have pend: "pending (sharedQueues w q) = Some p"
    and nx: "map (\<lambda>x. nxt (updates w x)) rs = map Some (rs' @ [a])"
    using circ Cons by (simp_all add: pendingCircle_def p_def)
  have "map (\<lambda>x. nxt (updates w x)) (butlast rs @ [p]) = map Some (rs' @ [a])"
    using nx rs by simp
  then have old: "map (\<lambda>x. nxt (updates w x)) (butlast rs) = map Some rs'"
    and oldp: "nxt (updates w p) = Some a"
    by simp_all
  have "distinct ((butlast rs @ [p]) @ [r])"
    using d rs by simp
  then have pr: "p \<noteq> r" and pb: "p \<notin> set (butlast rs)" and rb: "r \<notin> set (butlast rs)"
    by auto
  let ?w = "linkPending q r w"
  have upd: "updates ?w = (updates w)(r := (updates w r)\<lparr>nxt := Some a\<rparr>,
                                       p := (updates w p)\<lparr>nxt := Some r\<rparr>)"
    using pend oldp pr by (simp add: linkPending_def Let_def)
  have "map (\<lambda>x. nxt (updates ?w x)) (butlast rs) = map (\<lambda>x. nxt (updates w x)) (butlast rs)"
    using pb rb by (auto simp: upd)
  then have new: "map (\<lambda>x. nxt (updates ?w x)) (butlast rs) = map Some rs'"
    using old by simp
  have "map (\<lambda>x. nxt (updates ?w x)) (butlast rs @ [p] @ [r]) = map Some (rs' @ [r] @ [a])"
    using new pr by (simp add: upd)
  then have "map (\<lambda>x. nxt (updates ?w x)) (rs @ [r]) = map Some (rotate1 (rs @ [r]))"
    using rs Cons by (metis append.assoc append_Cons rotate1.simps(2))
  moreover have "pending (sharedQueues ?w q) = Some r"
    by (simp add: linkPending_def Let_def split: option.splits)
  ultimately show ?thesis
    by (simp add: pendingCircle_def)
qed

lemma linkAll_snoc: "linkAll (ts @ [t]) w = linkStaged t (linkAll ts w)"
  by (simp add: linkAll_def)

lemma linkAll_circle:
  "pendingCircle w q rs0 \<Longrightarrow> distinct (rs0 @ map (\<lambda>c. fst (snd c)) calls)
     \<Longrightarrow> pendingCircle (linkAll (stagedFor q calls) w) q (rs0 @ map (\<lambda>c. fst (snd c)) calls)"
proof (induction calls rule: rev_induct)
  case Nil
  then show ?case by (simp add: stagedFor_def linkAll_def)
next
  case (snoc c calls)
  obtain f r l where c: "c = (f, r, l)" by (cases c)
  have d: "distinct ((rs0 @ map (\<lambda>c. fst (snd c)) calls) @ [r])"
    using snoc.prems(2) by (simp add: c)
  then have "distinct (rs0 @ map (\<lambda>c. fst (snd c)) calls)" by simp
  from linkPending_circle [OF snoc.IH [OF snoc.prems(1) this] d]
  show ?case
    by (simp add: c stagedFor_def linkAll_snoc linkStaged_def)
qed

lemma pendingCircle_reads:
  "updates a = updates b \<Longrightarrow> sharedQueues a = sharedQueues b
     \<Longrightarrow> pendingCircle a q rs = pendingCircle b q rs"
  by (simp add: pendingCircle_def)

lemma finishQueueingConcurrentUpdates_staged:
  assumes idx: "concurrentQueuesIndex w = 0"
    and circ: "pendingCircle w q rs0"
    and d: "distinct (rs0 @ map (\<lambda>c. fst (snd c)) calls)"
    and chains: "\<forall>c \<in> set calls. \<exists>as. returnChain (fibers w) (return (fibers w (fst c))) as"
  shows "\<exists>w'. finishQueueingConcurrentUpdates (stageAll w (stagedFor q calls)) = Some w'
           \<and> pendingCircle w' q (rs0 @ map (\<lambda>c. fst (snd c)) calls)"
proof -
  let ?ts = "stagedFor q calls"
  let ?ws = "stageAll w ?ts"
  let ?w2 = "?ws\<lparr>concurrentQueuesIndex := 0, concurrentlyUpdatedLanes := NoLanes\<rparr>"
  have st: "stagedAt (concurrentQueues ?w2) 0 ?ts"
    and e: "concurrentQueuesIndex ?ws = 0 + 4 * length ?ts"
    using stageAll_staged [of w ?ts] idx by simp_all
  have ch: "\<forall>t \<in> set ?ts. \<exists>as. returnChain (fibers ?w2) (return (fibers ?w2 (fst t))) as"
    using chains
    by (fastforce simp: stagedFor_def stageAll_return
          returnChain_cong [of "fibers (stageAll w _)" "fibers w"])
  from flush_loop [OF st e ch]
  obtain w' where r: "finishQueueingConcurrentUpdates_loop ?w2 (concurrentQueuesIndex ?ws) 0 = Some w'"
    and u: "updates w' = updates (linkAll ?ts ?w2)"
    and s: "sharedQueues w' = sharedQueues (linkAll ?ts ?w2)"
    by blast
  have "pendingCircle (linkAll ?ts w) q (rs0 @ map (\<lambda>c. fst (snd c)) calls)"
    by (rule linkAll_circle [OF circ d])
  moreover have "updates (linkAll ?ts ?w2) = updates (linkAll ?ts w)
     \<and> sharedQueues (linkAll ?ts ?w2) = sharedQueues (linkAll ?ts w)"
    by (rule linkAll_reads) simp_all
  ultimately have "pendingCircle w' q (rs0 @ map (\<lambda>c. fst (snd c)) calls)"
    using u s by (simp add: pendingCircle_reads [of w' "linkAll ?ts w"])
  then show ?thesis
    using r by (simp add: finishQueueingConcurrentUpdates_def Let_def)
qed

text \<open>
  C4. Updates staged against one shared queue \<open>q\<close> whose pending list is empty (any
  number of them, distinct records, on fibers with finite \<open>return\<close> chains, the buffer
  empty before) and then flushed: \<open>finishQueueingConcurrentUpdates\<close> returns, \<open>q.pending\<close>
  is the record staged last, and the \<open>next\<close> of every record is the record staged after
  it, that of the last one the first. For \<open>r1, r2, r3\<close> this is the circular list
  \<open>r1 \<rightarrow> r2 \<rightarrow> r3 \<rightarrow> r1\<close>.
\<close>

theorem finishQueueingConcurrentUpdates_keeps_order:
  assumes "concurrentQueuesIndex w = 0"
    and "pending (sharedQueues w q) = None"
    and "calls \<noteq> []"
    and "distinct (map (\<lambda>c. fst (snd c)) calls)"
    and "\<forall>c \<in> set calls. \<exists>as. returnChain (fibers w) (return (fibers w (fst c))) as"
  shows "\<exists>w'. finishQueueingConcurrentUpdates
                 (foldl (\<lambda>w (f, r, l). enqueueUpdate_Concurrent w f (Some q) (Some r) l) w calls)
               = Some w'
           \<and> pending (sharedQueues w' q) = Some (last (map (\<lambda>c. fst (snd c)) calls))
           \<and> map (\<lambda>r. nxt (updates w' r)) (map (\<lambda>c. fst (snd c)) calls)
               = map Some (rotate1 (map (\<lambda>c. fst (snd c)) calls))"
proof -
  have fold: "foldl (\<lambda>w (f, r, l). enqueueUpdate_Concurrent w f (Some q) (Some r) l) w calls
              = stageAll w (stagedFor q calls)"
    unfolding stageAll_def stagedFor_def
    by (induction calls arbitrary: w) (auto simp: case_prod_beta)
  have circ: "pendingCircle w q []"
    using assms(2) by (simp add: pendingCircle_def)
  from finishQueueingConcurrentUpdates_staged [OF assms(1) circ _ assms(5)]
  show ?thesis
    using assms(3,4) by (simp add: fold pendingCircle_def)
qed

lemma exampleWorld_staging:
  "concurrentQueuesIndex exampleWorld = 0"
  "pending (sharedQueues exampleWorld 0) = None"
  "\<forall>c \<in> set [(0, 11, 1), (0, 12, 1), (0, 13, 2)].
     \<exists>as. returnChain (fibers exampleWorld) (return (fibers exampleWorld (fst c))) as"
proof -
  have "returnChain (fibers exampleWorld) (return (fibers exampleWorld 0)) []"
    by (simp add: exampleWorld_def exampleFiber_def)
  then show "\<forall>c \<in> set [(0, 11, 1), (0, 12, 1), (0, 13, 2)].
     \<exists>as. returnChain (fibers exampleWorld) (return (fibers exampleWorld (fst c))) as"
    by (auto intro: exI [of _ "[]"])
qed (simp_all add: exampleWorld_def)

theorem finishQueueingConcurrentUpdates_keeps_order_witness:
  "\<exists>w'. finishQueueingConcurrentUpdates
           (enqueueUpdate_Concurrent
              (enqueueUpdate_Concurrent
                 (enqueueUpdate_Concurrent exampleWorld 0 (Some 0) (Some 11) 1)
                 0 (Some 0) (Some 12) 1)
              0 (Some 0) (Some 13) 2) = Some w'
       \<and> pending (sharedQueues w' 0) = Some 13
       \<and> nxt (updates w' 11) = Some 12
       \<and> nxt (updates w' 12) = Some 13
       \<and> nxt (updates w' 13) = Some 11"
  using finishQueueingConcurrentUpdates_keeps_order
          [OF exampleWorld_staging(1,2) _ _ exampleWorld_staging(3)]
  by simp

subsection \<open>The loop of processUpdateQueue and the walk on lists\<close>


lemma getStateFromUpdate_world:
  "fst (getStateFromUpdate env w wip q r s p i) =
     w\<lparr>fibers := (fibers w)(wip := (fibers w wip)\<lparr>flags :=
            flags (fibers (fst (getStateFromUpdate env w wip q r s p i)) wip)\<rparr>),
       hasForceUpdate := hasForceUpdate (fst (getStateFromUpdate env w wip q r s p i))\<rparr>"
  by (simp add: getStateFromUpdate_def modifyFiber_def Let_def
           split: UpdateTag.splits Payload.splits)

lemma getStateFromUpdate_fields [simp]:
  "updates (fst (getStateFromUpdate env w wip q r s p i)) = updates w"
  "nextUpdate (fst (getStateFromUpdate env w wip q r s p i)) = nextUpdate w"
  "queues (fst (getStateFromUpdate env w wip q r s p i)) = queues w"
  "sharedQueues (fst (getStateFromUpdate env w wip q r s p i)) = sharedQueues w"
  "workInProgressRootRenderLanes (fst (getStateFromUpdate env w wip q r s p i))
     = workInProgressRootRenderLanes w"
  by (simp_all add: getStateFromUpdate_def Let_def split: UpdateTag.splits Payload.splits)

lemma clonesAt_Nil [simp]: "clonesAt us n0 []"
  by (simp add: clonesAt_def)




lemma sameOutside_refl [simp]: "sameOutside w w"
  by (simp add: sameOutside_def)

lemma sameOutside_simps [simp]:
  "sameOutside w0 (modifyUpdate r f w) = sameOutside w0 w"
  "sameOutside w0 (modifyQueue q g w) = sameOutside w0 w"
  "sameOutside w0 (modifyFiber x h w) = sameOutside w0 w"
  "sameOutside w0 (fst (newUpdate u w)) = sameOutside w0 w"
  "sameOutside w0 (fst (getStateFromUpdate env w wip q r s p i)) = sameOutside w0 w"
  by (simp_all add: sameOutside_def newUpdate_def getStateFromUpdate_def Let_def
        split: UpdateTag.splits Payload.splits)

lemma newUpdate_simps [simp]:
  "snd (newUpdate u w) = nextUpdate w"
  "updates (fst (newUpdate u w)) = (updates w)(nextUpdate w := u)"
  "nextUpdate (fst (newUpdate u w)) = Suc (nextUpdate w)"
  "queues (fst (newUpdate u w)) = queues w"
  "fibers (fst (newUpdate u w)) = fibers w"
  "sharedQueues (fst (newUpdate u w)) = sharedQueues w"
  "workInProgressRootRenderLanes (fst (newUpdate u w)) = workInProgressRootRenderLanes w"
  by (simp_all add: newUpdate_def)



lemma pushEffects_Nil [simp]: "pushEffects e0 [] = e0"
  by (simp add: pushEffects_def)

lemma cloneOf_nxt [simp]: "nxt (cloneOf l u) = None"
  by (simp add: cloneOf_def)

























subsection \<open>What a walk computes\<close>

lemma nextState_cloneOf [simp]: "nextState env (cloneOf l u) = nextState env u"
  by (simp add: nextState_def cloneOf_def fun_eq_iff)

lemma nextState_nxt [simp]: "nextState env (u\<lparr>nxt := x\<rparr>) = nextState env u"
  by (simp add: nextState_def fun_eq_iff)



lemma walkFull_walkStart [simp]: "walkFull env p i (walkStart s) = s"
  by (simp add: walkFull_def walkStart_def)



lemma walk_Nil [simp]: "walk env p i R W us a [] = a"
  by (simp add: walk_def)

lemma walk_Cons [simp]:
  "walk env p i R W us a (r # rs) = walk env p i R W us (walkStep env p i R W us a r) rs"
  by (simp add: walk_def)

lemma walk_snoc:
  "walk env p i R W us a (rs @ [r]) = walkStep env p i R W us (walk env p i R W us a rs) r"
  by (simp add: walk_def)

lemma walk_no_skip:
  "\<forall>r \<in> set rs. \<not> shouldSkipUpdate env R W (us r) \<Longrightarrow> walkClones a = []
     \<Longrightarrow> walkClones (walk env p i R W us a rs) = []"
  by (induction rs arbitrary: a) (simp_all add: walkStep_def Let_def)

lemma lanesOf_Nil [simp]: "lanesOf [] = NoLanes"
  by (simp add: lanesOf_def)

lemma lanesOf_snoc [simp]: "lanesOf (us @ [u]) = mergeLanes (lanesOf us) (lane u)"
  by (simp add: lanesOf_def)


lemma lane_cloneOf [simp]: "lane (cloneOf l u) = l"
  by (simp add: cloneOf_def)






lemma qualifies_nxt [simp]: "qualifies env R W (u\<lparr>nxt := x\<rparr>) = qualifies env R W u"
  by (simp add: qualifies_def shouldSkipUpdate_def Let_def)

subsection \<open>One pass over a base list\<close>

lemma startProcessing_simps [simp]:
  "updates (startProcessing env q w) = updates w"
  "nextUpdate (startProcessing env q w) = nextUpdate w"
  "queues (startProcessing env q w) = queues w"
  "sharedQueues (startProcessing env q w) = sharedQueues w"
  "fibers (startProcessing env q w) = fibers w"
  "roots (startProcessing env q w) = roots w"
  "trace (startProcessing env q w) = trace w"
  "workInProgressRootRenderLanes (startProcessing env q w) = workInProgressRootRenderLanes w"
  by (simp_all add: startProcessing_def)




subsection \<open>Several passes\<close>

lemma baseList_rootRenderLanes [simp]:
  "baseList (w\<lparr>workInProgressRootRenderLanes := W\<rparr>) q rs = baseList w q rs"
  by (simp add: baseList_def)

lemma processPasses_append:
  "processPasses env w wip p i (ps @ qs) =
     (case processPasses env w wip p i ps of
        None \<Rightarrow> None
      | Some w' \<Rightarrow> processPasses env w' wip p i qs)"
  by (induction ps arbitrary: w) (simp_all split: option.splits)









subsection \<open>The lanes that remain after a pass\<close>




subsection \<open>commitUpdateQueue\<close>






lemma clearCallbacks_empty [simp]: "clearCallbacks {} us = us"
  by (simp add: clearCallbacks_def)




lemma committed_simps [simp]:
  "updates (committed w q i es S) = clearCallbacks S (updates w)"
  "queues (committed w q i es S) = (queues w)(q := (queues w q)\<lparr>effects := None\<rparr>)"
  "trace (committed w q i es S) = trace w @ callbackCalls (updates w) i es"
  "fibers (committed w q i es S) = fibers w"
  "nextUpdate (committed w q i es S) = nextUpdate w"
  "sharedQueues (committed w q i es S) = sharedQueues w"
  "workInProgressRootRenderLanes (committed w q i es S) = workInProgressRootRenderLanes w"
  by (simp_all add: committed_def)

lemma updateList_cong:
  "\<forall>r. nxt (us r) = nxt (vs r) \<Longrightarrow> updateList us p rs = updateList vs p rs"
  by (induction rs arbitrary: p) simp_all

lemma nxt_clearCallbacks [simp]: "nxt (clearCallbacks S us r) = nxt (us r)"
  by (simp add: clearCallbacks_def)


lemma baseList_committed [simp]: "baseList (committed w q i es S) q rs = baseList w q rs"
  using updateList_cong [of "clearCallbacks S (updates w)" "updates w"]
  by (simp add: baseList_def)








end
